theory Spec2Isabelle
  imports Main "HOL-Library.Word"
begin

unbundle bit_operations_syntax

section \<open>Shared data: bytes and application errors\<close>

type_synonym byte = "8 word"

text \<open>
  \<open>model.AppError\<close> as built by \<open>model.NewAppError(where, id, params, details, status)\<close>.
  A Go \<open>*model.AppError\<close> that may be \<open>nil\<close> is an \<open>AppError option\<close>.
\<close>

record AppError =
  Where :: string
  ErrorId :: string
  Params :: "(string \<times> int) list"
  DetailedError :: string
  StatusCode :: int

definition NewAppError :: "string \<Rightarrow> string \<Rightarrow> (string \<times> int) list \<Rightarrow> string \<Rightarrow> int \<Rightarrow> AppError" where
  "NewAppError w i ps details status =
     \<lparr>Where = w, ErrorId = i, Params = ps, DetailedError = details, StatusCode = status\<rparr>"

text \<open>The status codes of \<open>net/http\<close> that the code uses.\<close>

definition StatusBadRequest :: int where "StatusBadRequest = 400"
definition StatusNotFound :: int where "StatusNotFound = 404"
definition StatusInternalServerError :: int where "StatusInternalServerError = 500"
definition StatusNotImplemented :: int where "StatusNotImplemented = 501"

section \<open>The key hasher: \<open>getKeyHash\<close> (app/plugin.go)\<close>

subsection \<open>\<open>hash/fnv\<close>: the 128-bit FNV-1a digest\<close>

definition offset128 :: "128 word" where
  "offset128 = 0x6c62272e07bb014262b821756295c58d"

definition prime128 :: "128 word" where
  "prime128 = 0x0000000001000000000000000000013b"

text \<open>\<open>New128a\<close> starts from the offset basis; \<open>Write\<close> folds each byte in: xor, then
  multiply by the prime, modulo \<open>2^128\<close>.\<close>

definition New128a :: "128 word" where
  "New128a = offset128"

fun fnv_Write :: "128 word \<Rightarrow> byte list \<Rightarrow> 128 word" where
  "fnv_Write h [] = h"
| "fnv_Write h (c # cs) = fnv_Write ((h XOR ucast c) * prime128) cs"

text \<open>\<open>Sum(nil)\<close>: the sixteen bytes of the digest, most significant first.\<close>

definition fnv_Sum :: "128 word \<Rightarrow> byte list" where
  "fnv_Sum h = map (\<lambda>i. ucast (drop_bit (8 * (15 - i)) h)) [0..<16]"

subsection \<open>\<open>encoding/base64\<close>: \<open>StdEncoding.EncodeToString\<close>\<close>

definition encodeStd :: string where
  "encodeStd = ''ABCDEFGHIJKLMNOPQRSTUVWXYZabcdefghijklmnopqrstuvwxyz0123456789+/''"

definition b64char :: "32 word \<Rightarrow> char" where
  "b64char v = encodeStd ! unat (v AND 0x3F)"

fun EncodeToString :: "byte list \<Rightarrow> string" where
  "EncodeToString (a # b # c # rest) =
     (let val = push_bit 16 (ucast a) OR push_bit 8 (ucast b) OR ucast c
      in b64char (drop_bit 18 val) # b64char (drop_bit 12 val) #
         b64char (drop_bit 6 val) # b64char val # EncodeToString rest)"
| "EncodeToString [a, b] =
     (let val = push_bit 16 (ucast a) OR push_bit 8 (ucast b)
      in [b64char (drop_bit 18 val), b64char (drop_bit 12 val),
          b64char (drop_bit 6 val), CHR ''=''])"
| "EncodeToString [a] =
     (let val = push_bit 16 (ucast a)
      in [b64char (drop_bit 18 val), b64char (drop_bit 12 val), CHR ''='', CHR ''=''])"
| "EncodeToString [] = []"

subsection \<open>\<open>getKeyHash\<close>\<close>

text \<open>\<open>[]byte(s)\<close>: a Go string is its bytes.\<close>

definition bytes_of :: "string \<Rightarrow> byte list" where
  "bytes_of s = map of_char s"

definition getKeyHash :: "string \<Rightarrow> string \<Rightarrow> AppError + string" where
  "getKeyHash pluginId key =
     (if length pluginId = 0 then
        Inl (NewAppError ''getKeyHash'' ''app.plugin.key_value.plugin_id.app_error'' [] ''''
               StatusBadRequest)
      else if length key = 0 then
        Inl (NewAppError ''getKeyHash'' ''app.plugin.key_value.key.app_error'' [] ''''
               StatusBadRequest)
      else
        Inr (EncodeToString (fnv_Sum (fnv_Write New128a (bytes_of (pluginId @ key))))))"

section \<open>The key-value record: \<open>model.PluginKeyValue\<close>\<close>

definition KEY_VALUE_KEY_MAX_RUNES :: nat where
  "KEY_VALUE_KEY_MAX_RUNES = 128"

record PluginKeyValue =
  Key :: string
  Value :: "byte list"

subsection \<open>\<open>unicode/utf8\<close>: \<open>RuneCountInString\<close>\<close>

text \<open>The lead-byte table \<open>first\<close> of package \<open>utf8\<close>, for a byte \<open>c \<ge> 0x80\<close>: the
  length of the encoding and the accepted range of the second byte; \<open>None\<close> is an
  invalid lead byte.\<close>

definition utf8_first :: "nat \<Rightarrow> (nat \<times> nat \<times> nat) option" where
  "utf8_first c =
     (if c < 0xC2 then None
      else if c \<le> 0xDF then Some (2, 0x80, 0xBF)
      else if c = 0xE0 then Some (3, 0xA0, 0xBF)
      else if c \<le> 0xEC then Some (3, 0x80, 0xBF)
      else if c = 0xED then Some (3, 0x80, 0x9F)
      else if c \<le> 0xEF then Some (3, 0x80, 0xBF)
      else if c = 0xF0 then Some (4, 0x90, 0xBF)
      else if c \<le> 0xF3 then Some (4, 0x80, 0xBF)
      else if c = 0xF4 then Some (4, 0x80, 0x8F)
      else None)"

text \<open>The number of bytes the loop of \<open>RuneCountInString\<close> advances by at the head of a
  non-empty string: an invalid or short encoding counts as one rune of width 1.\<close>

definition rune_width :: "nat list \<Rightarrow> nat" where
  "rune_width s =
     (let c = s ! 0 in
      if c < 0x80 then 1
      else case utf8_first c of
        None \<Rightarrow> 1
      | Some (n, lo, hi) \<Rightarrow>
          if length s < n then 1
          else if s ! 1 < lo \<or> hi < s ! 1 then 1
          else if n = 2 then 2
          else if s ! 2 < 0x80 \<or> 0xBF < s ! 2 then 1
          else if n = 3 then 3
          else if s ! 3 < 0x80 \<or> 0xBF < s ! 3 then 1
          else n)"

function rune_count :: "nat list \<Rightarrow> nat" where
  "rune_count [] = 0"
| "rune_count (c # cs) = Suc (rune_count (drop (rune_width (c # cs) - 1) cs))"
  by pat_completeness auto
termination
  by (relation "measure length") simp_all

definition RuneCountInString :: "string \<Rightarrow> nat" where
  "RuneCountInString s = rune_count (map of_char s)"

subsection \<open>\<open>PluginKeyValue.IsValid\<close>\<close>

definition IsValid :: "PluginKeyValue \<Rightarrow> AppError option" where
  "IsValid kv =
     (if length (Key kv) = 0 \<or> RuneCountInString (Key kv) > KEY_VALUE_KEY_MAX_RUNES then
        Some (NewAppError ''PluginKeyValue.IsValid''
                ''model.plugin_key_value.is_valid.key.app_error''
                [(''Max'', int KEY_VALUE_KEY_MAX_RUNES), (''Min'', 0)]
                (''key='' @ Key kv) StatusBadRequest)
      else None)"

section \<open>The SQL plugin store (store/sqlstore/plugin\_store.go)\<close>

subsection \<open>The database connection\<close>

text \<open>
  The errors a call on the connection can return: \<open>sql.ErrNoRows\<close>, a violation of a
  unique constraint (with the name of the violated index or column), and any other
  failure of the driver (with its message).
\<close>

datatype db_error = ErrNoRows | UniqueConstraint string | DriverError string

fun db_error_text :: "db_error \<Rightarrow> string" where
  "db_error_text ErrNoRows = ''sql: no rows in result set''"
| "db_error_text (UniqueConstraint idx) = ''duplicate key value violates unique constraint '' @ idx"
| "db_error_text (DriverError msg) = msg"

text \<open>
  Modelled from the spec: \<open>IsUniqueConstraintError\<close> is declared outside the given
  sources. The spec has the insert fail "specifically due to a uniqueness violation on
  the key": the error is a unique-constraint violation and it names one of the given
  indexes.
\<close>

fun IsUniqueConstraintError :: "db_error \<Rightarrow> string list \<Rightarrow> bool" where
  "IsUniqueConstraintError (UniqueConstraint idx) indexName = (idx \<in> set indexName)"
| "IsUniqueConstraintError _ indexName = False"

text \<open>The three statements the store passes to \<open>Exec\<close> and \<open>SelectOne\<close>, with their
  bound arguments.\<close>

datatype sql_stmt =
    InsertOnDuplicateKeyUpdate string "byte list"
  | SelectWherePKey string
  | DeleteWherePKey string

text \<open>
  The connection (\<open>*gorp.DbMap\<close>) is an external collaborator: its behaviour is a
  parameter, a record of the four calls the store makes, each from the state of the
  database to an outcome and the next state. What another session commits between two
  calls is part of that behaviour.
\<close>

record 'db DbMap =
  db_Update :: "'db \<Rightarrow> PluginKeyValue \<Rightarrow> (db_error + int) \<times> 'db"
  db_Insert :: "'db \<Rightarrow> PluginKeyValue \<Rightarrow> db_error option \<times> 'db"
  db_Exec :: "'db \<Rightarrow> sql_stmt \<Rightarrow> db_error option \<times> 'db"
  db_SelectOne :: "'db \<Rightarrow> sql_stmt \<Rightarrow> (db_error + PluginKeyValue) \<times> 'db"

datatype db_call =
    CallUpdate PluginKeyValue
  | CallInsert PluginKeyValue
  | CallExec sql_stmt
  | CallSelectOne sql_stmt

text \<open>\<open>ps.DriverName()\<close> is compared with two distinct constants of package \<open>model\<close>.\<close>

datatype driver_name = DATABASE_DRIVER_POSTGRES | DATABASE_DRIVER_MYSQL | OtherDriver string

text \<open>
  The store: the driver's name, the state of the database behind \<open>GetMaster()\<close> and
  \<open>GetReplica()\<close> (one database; a replica that lags is outside this model), and the
  calls made on the connection so far, in order.
\<close>

record 'db SqlPluginStore =
  DriverName :: driver_name
  database :: 'db
  calls :: "db_call list"

definition conn_Update ::
  "'db DbMap \<Rightarrow> 'db SqlPluginStore \<Rightarrow> PluginKeyValue \<Rightarrow> (db_error + int) \<times> 'db SqlPluginStore" where
  "conn_Update drv ps kv =
     (case db_Update drv (database ps) kv of
        (r, db') \<Rightarrow> (r, ps\<lparr>database := db', calls := calls ps @ [CallUpdate kv]\<rparr>))"

definition conn_Insert ::
  "'db DbMap \<Rightarrow> 'db SqlPluginStore \<Rightarrow> PluginKeyValue \<Rightarrow> db_error option \<times> 'db SqlPluginStore" where
  "conn_Insert drv ps kv =
     (case db_Insert drv (database ps) kv of
        (r, db') \<Rightarrow> (r, ps\<lparr>database := db', calls := calls ps @ [CallInsert kv]\<rparr>))"

definition conn_Exec ::
  "'db DbMap \<Rightarrow> 'db SqlPluginStore \<Rightarrow> sql_stmt \<Rightarrow> db_error option \<times> 'db SqlPluginStore" where
  "conn_Exec drv ps q =
     (case db_Exec drv (database ps) q of
        (r, db') \<Rightarrow> (r, ps\<lparr>database := db', calls := calls ps @ [CallExec q]\<rparr>))"

definition conn_SelectOne ::
  "'db DbMap \<Rightarrow> 'db SqlPluginStore \<Rightarrow> sql_stmt \<Rightarrow> (db_error + PluginKeyValue) \<times> 'db SqlPluginStore" where
  "conn_SelectOne drv ps q =
     (case db_SelectOne drv (database ps) q of
        (r, db') \<Rightarrow> (r, ps\<lparr>database := db', calls := calls ps @ [CallSelectOne q]\<rparr>))"

subsection \<open>\<open>store.StoreResult\<close> and the three operations\<close>

datatype store_data = DataKV PluginKeyValue | DataBool bool

record StoreResult =
  Data :: "store_data option"
  Err :: "AppError option"

definition store_ok :: "store_data \<Rightarrow> StoreResult" where
  "store_ok d = \<lparr>Data = Some d, Err = None\<rparr>"

definition store_err :: "AppError \<Rightarrow> StoreResult" where
  "store_err e = \<lparr>Data = None, Err = Some e\<rparr>"

definition save_error :: "db_error \<Rightarrow> AppError" where
  "save_error err =
     NewAppError ''SqlPluginStore.SaveOrUpdate'' ''store.sql_plugin_store.save.app_error'' []
       (db_error_text err) StatusInternalServerError"

definition SaveOrUpdate ::
  "'db DbMap \<Rightarrow> 'db SqlPluginStore \<Rightarrow> PluginKeyValue \<Rightarrow> StoreResult \<times> 'db SqlPluginStore" where
  "SaveOrUpdate drv ps kv =
     (case IsValid kv of
        Some e \<Rightarrow> (store_err e, ps)
      | None \<Rightarrow>
          if DriverName ps = DATABASE_DRIVER_POSTGRES then
            (case conn_Update drv ps kv of
               (Inl err, ps1) \<Rightarrow> (store_err (save_error err), ps1)
             | (Inr rowsAffected, ps1) \<Rightarrow>
                 if rowsAffected = 0 then
                   (case conn_Insert drv ps1 kv of
                      (Some err, ps2) \<Rightarrow>
                        if \<not> IsUniqueConstraintError err [''PRIMARY'', ''Key'', ''PKey'']
                        then (store_err (save_error err), ps2)
                        else (store_ok (DataKV kv), ps2)
                    | (None, ps2) \<Rightarrow> (store_ok (DataKV kv), ps2))
                 else (store_ok (DataKV kv), ps1))
          else if DriverName ps = DATABASE_DRIVER_MYSQL then
            (case conn_Exec drv ps (InsertOnDuplicateKeyUpdate (Key kv) (Value kv)) of
               (Some err, ps1) \<Rightarrow> (store_err (save_error err), ps1)
             | (None, ps1) \<Rightarrow> (store_ok (DataKV kv), ps1))
          else (store_ok (DataKV kv), ps))"

text \<open>\<open>fmt.Sprintf("key=%v, err=%v", key, err.Error())\<close>\<close>

definition key_err_detail :: "string \<Rightarrow> db_error \<Rightarrow> string" where
  "key_err_detail key err = ''key='' @ key @ '', err='' @ db_error_text err"

definition Get ::
  "'db DbMap \<Rightarrow> 'db SqlPluginStore \<Rightarrow> string \<Rightarrow> StoreResult \<times> 'db SqlPluginStore" where
  "Get drv ps key =
     (case conn_SelectOne drv ps (SelectWherePKey key) of
        (Inl err, ps1) \<Rightarrow>
          if err = ErrNoRows then
            (store_err (NewAppError ''SqlPluginStore.Get'' ''store.sql_plugin_store.get.app_error''
                          [] (key_err_detail key err) StatusNotFound), ps1)
          else
            (store_err (NewAppError ''SqlPluginStore.Get'' ''store.sql_plugin_store.get.app_error''
                          [] (key_err_detail key err) StatusInternalServerError), ps1)
      | (Inr kv, ps1) \<Rightarrow> (store_ok (DataKV kv), ps1))"

definition Delete ::
  "'db DbMap \<Rightarrow> 'db SqlPluginStore \<Rightarrow> string \<Rightarrow> StoreResult \<times> 'db SqlPluginStore" where
  "Delete drv ps key =
     (case conn_Exec drv ps (DeleteWherePKey key) of
        (Some err, ps1) \<Rightarrow>
          (store_err (NewAppError ''SqlPluginStore.Delete''
                        ''store.sql_plugin_store.delete.app_error'' []
                        (key_err_detail key err) StatusInternalServerError), ps1)
      | (None, ps1) \<Rightarrow> (store_ok (DataBool True), ps1))"

section \<open>The plugin environment, the configuration and the application\<close>

text \<open>
  Modelled from the spec: \<open>model.Manifest\<close> and \<open>model.BundleInfo\<close> are declared
  outside the given sources. A manifest has a unique string identifier and a version,
  and says whether the extension ships a client-side component (\<open>HasClient()\<close>);
  \<open>ClientManifest()\<close> is the client-relevant subset of the manifest, here all of these
  fields. The environment holds one manifest per discovered bundle directory.
\<close>

record Manifest =
  ManifestId :: string
  Version :: string
  HasClient :: bool

definition ClientManifest :: "Manifest \<Rightarrow> Manifest" where
  "ClientManifest m = m"

record BundleInfo =
  Path :: "string list"
  Manifest :: Manifest

text \<open>
  Modelled from the spec: package \<open>pluginenv\<close> is outside the given sources. The
  environment enumerates the installed bundles of its search path (\<open>Plugins()\<close>, which
  can fail), tracks the set of active identifiers, and activates and deactivates:
  \<open>ActivatePlugin\<close> fails if the plugin is already active, if it is not installed, or if
  the extension's own startup logic fails, leaving the state unchanged;
  \<open>DeactivatePlugin\<close> has the symmetric failure modes. What the scan of the search path
  yields (the field \<open>bundles\<close>) and the outcome of each extension's own startup and
  shutdown logic (\<open>OnActivate\<close>, \<open>OnDeactivate\<close>: an error message, or none) are parameters
  of the environment.
\<close>

datatype env_error =
    ScanFailed string
  | AlreadyActive string
  | NotInstalled string
  | NotActive string
  | ActivationError string string
  | DeactivationError string string

fun env_error_text :: "env_error \<Rightarrow> string" where
  "env_error_text (ScanFailed msg) = msg"
| "env_error_text (AlreadyActive i) = ''plugin already active: '' @ i"
| "env_error_text (NotInstalled i) = ''plugin not found: '' @ i"
| "env_error_text (NotActive i) = ''plugin not active: '' @ i"
| "env_error_text (ActivationError i msg) = ''unable to activate plugin '' @ i @ '': '' @ msg"
| "env_error_text (DeactivationError i msg) = ''unable to deactivate plugin '' @ i @ '': '' @ msg"

record Environment =
  SearchPath :: "string list"
  bundles :: "string + BundleInfo list"
  activePlugins :: "string set"
  OnActivate :: "string \<Rightarrow> string option"
  OnDeactivate :: "string \<Rightarrow> string option"

definition Plugins :: "Environment \<Rightarrow> env_error + BundleInfo list" where
  "Plugins env = (case bundles env of Inl msg \<Rightarrow> Inl (ScanFailed msg) | Inr bs \<Rightarrow> Inr bs)"

definition IsPluginActive :: "Environment \<Rightarrow> string \<Rightarrow> bool" where
  "IsPluginActive env i = (i \<in> activePlugins env)"

definition ActivatePlugin :: "Environment \<Rightarrow> string \<Rightarrow> env_error option \<times> Environment" where
  "ActivatePlugin env i =
     (if i \<in> activePlugins env then (Some (AlreadyActive i), env)
      else case Plugins env of
        Inl e \<Rightarrow> (Some e, env)
      | Inr bs \<Rightarrow>
          if i \<notin> set (map (\<lambda>b. ManifestId (Manifest b)) bs) then (Some (NotInstalled i), env)
          else case OnActivate env i of
            Some msg \<Rightarrow> (Some (ActivationError i msg), env)
          | None \<Rightarrow> (None, env\<lparr>activePlugins := insert i (activePlugins env)\<rparr>))"

definition DeactivatePlugin :: "Environment \<Rightarrow> string \<Rightarrow> env_error option \<times> Environment" where
  "DeactivatePlugin env i =
     (if i \<notin> activePlugins env then (Some (NotActive i), env)
      else case OnDeactivate env i of
        Some msg \<Rightarrow> (Some (DeactivationError i msg), env)
      | None \<Rightarrow> (None, env\<lparr>activePlugins := activePlugins env - {i}\<rparr>))"

text \<open>
  \<open>a.Config().PluginSettings\<close>: the global switch \<open>Enable\<close> and the map \<open>PluginStates\<close>
  from identifier to \<open>model.PluginState\<close>, whose only field is the flag \<open>Enable\<close>.
\<close>

record PluginSettings =
  Enable :: bool
  PluginStates :: "string \<rightharpoonup> bool"

text \<open>The events \<open>a.Publish\<close> broadcasts: the event name and the \<open>manifest\<close> entry.\<close>

datatype event_name = WEBSOCKET_EVENT_PLUGIN_ACTIVATED | WEBSOCKET_EVENT_PLUGIN_DEACTIVATED

datatype WebSocketEvent = NewWebSocketEvent event_name Manifest

text \<open>The lines written through \<open>l4g\<close>.\<close>

datatype log_line = l4g_Error string | l4g_Info string

text \<open>
  Modelled from the spec: \<open>model.Session\<close> and \<open>App.GetSession\<close> are outside the given
  sources. The session resolver is given a credential string and returns a caller
  identity or a failure; on failure there is no session (the pointer is \<open>nil\<close>).
\<close>

record Session =
  UserId :: string

text \<open>
  The application: the plugin environment (\<open>nil\<close> until initialised), the plugin
  settings of the configuration, the plugin store, the session resolver, and what has
  been published and logged so far.
\<close>

record 'db App =
  PluginEnv :: "Environment option"
  Config :: PluginSettings
  Store :: "'db SqlPluginStore"
  GetSession :: "string \<Rightarrow> AppError + Session"
  Published :: "WebSocketEvent list"
  Log :: "log_line list"

definition Publish :: "WebSocketEvent \<Rightarrow> 'db App \<Rightarrow> 'db App" where
  "Publish message a = a\<lparr>Published := Published a @ [message]\<rparr>"

definition l4g :: "log_line \<Rightarrow> 'db App \<Rightarrow> 'db App" where
  "l4g line a = a\<lparr>Log := Log a @ [line]\<rparr>"

text \<open>\<open>AppError.Error()\<close>: \<open>Where\<close>, the message and the details.\<close>

definition AppError_text :: "AppError \<Rightarrow> string" where
  "AppError_text e = Where e @ '': '' @ ErrorId e @ '', '' @ DetailedError e"

section \<open>The namespaced key-value operations (app/plugin.go)\<close>

definition SetPluginKey ::
  "'db DbMap \<Rightarrow> 'db App \<Rightarrow> string \<Rightarrow> string \<Rightarrow> byte list \<Rightarrow> AppError option \<times> 'db App" where
  "SetPluginKey drv a pluginId key val =
     (case getKeyHash pluginId key of
        Inl err \<Rightarrow> (Some err, a)
      | Inr hash \<Rightarrow>
          (case SaveOrUpdate drv (Store a) \<lparr>Key = hash, Value = val\<rparr> of
             (result, ps) \<Rightarrow>
               (case Err result of
                  Some e \<Rightarrow> (Some e, l4g (l4g_Error (AppError_text e)) (a\<lparr>Store := ps\<rparr>))
                | None \<Rightarrow> (None, a\<lparr>Store := ps\<rparr>))))"

text \<open>\<open>GetPluginKey\<close> returns \<open>([]byte, *AppError)\<close>; a \<open>nil\<close> slice is \<open>None\<close>. The type
  assertion \<open>result.Data.(*model.PluginKeyValue)\<close> cannot fail: \<open>Get\<close> sets \<open>Data\<close> to
  a record whenever it sets no error, so the last case below is never taken.\<close>

definition GetPluginKey ::
  "'db DbMap \<Rightarrow> 'db App \<Rightarrow> string \<Rightarrow> string \<Rightarrow> (byte list option \<times> AppError option) \<times> 'db App" where
  "GetPluginKey drv a pluginId key =
     (case getKeyHash pluginId key of
        Inl err \<Rightarrow> ((None, Some err), a)
      | Inr hash \<Rightarrow>
          (case Get drv (Store a) hash of
             (result, ps) \<Rightarrow>
               (case Err result of
                  Some e \<Rightarrow>
                    if StatusCode e = StatusNotFound then ((None, None), a\<lparr>Store := ps\<rparr>)
                    else ((None, Some e), l4g (l4g_Error (AppError_text e)) (a\<lparr>Store := ps\<rparr>))
                | None \<Rightarrow>
                    (case Data result of
                       Some (DataKV kv) \<Rightarrow> ((Some (Value kv), None), a\<lparr>Store := ps\<rparr>)
                     | _ \<Rightarrow> ((None, None), a\<lparr>Store := ps\<rparr>)))))"

definition DeletePluginKey ::
  "'db DbMap \<Rightarrow> 'db App \<Rightarrow> string \<Rightarrow> string \<Rightarrow> AppError option \<times> 'db App" where
  "DeletePluginKey drv a pluginId key =
     (case getKeyHash pluginId key of
        Inl err \<Rightarrow> (Some err, a)
      | Inr hash \<Rightarrow>
          (case Delete drv (Store a) hash of
             (result, ps) \<Rightarrow>
               (case Err result of
                  Some e \<Rightarrow> (Some e, l4g (l4g_Error (AppError_text e)) (a\<lparr>Store := ps\<rparr>))
                | None \<Rightarrow> (None, a\<lparr>Store := ps\<rparr>))))"

section \<open>The lifecycle reconciler: \<open>ActivatePlugins\<close> (app/plugin.go)\<close>

text \<open>The desired state of a plugin: \<open>pluginState.Enable\<close>, where \<open>pluginState\<close> is the
  entry of \<open>PluginStates\<close> for the identifier, or \<open>PluginState{Enable: false}\<close> when
  there is none.\<close>

definition pluginState_Enable :: "PluginSettings \<Rightarrow> string \<Rightarrow> bool" where
  "pluginState_Enable cfg i = (case PluginStates cfg i of Some state \<Rightarrow> state | None \<Rightarrow> False)"

definition activated_message :: "Manifest \<Rightarrow> WebSocketEvent" where
  "activated_message m = NewWebSocketEvent WEBSOCKET_EVENT_PLUGIN_ACTIVATED (ClientManifest m)"

definition deactivated_message :: "Manifest \<Rightarrow> WebSocketEvent" where
  "deactivated_message m = NewWebSocketEvent WEBSOCKET_EVENT_PLUGIN_DEACTIVATED (ClientManifest m)"

text \<open>
  The body of the loop over the installed bundles, for one bundle. The environment is
  not \<open>nil\<close> inside the loop (\<open>ActivatePlugins\<close> returns before the loop when it is).
  A failed activation or deactivation is logged and the loop continues with the next
  bundle.
\<close>

definition activate_one :: "BundleInfo \<Rightarrow> 'db App \<Rightarrow> 'db App" where
  "activate_one plugin a =
     (case PluginEnv a of
        None \<Rightarrow> a
      | Some env \<Rightarrow>
          let i = ManifestId (Manifest plugin);
              enable = pluginState_Enable (Config a) i;
              active = IsPluginActive env i
          in if enable \<and> \<not> active then
               (case ActivatePlugin env i of
                  (Some err, env') \<Rightarrow>
                    l4g (l4g_Error (env_error_text err)) (a\<lparr>PluginEnv := Some env'\<rparr>)
                | (None, env') \<Rightarrow>
                    l4g (l4g_Info (''Activated '' @ i @ '' plugin''))
                      ((if HasClient (Manifest plugin)
                        then Publish (activated_message (Manifest plugin))
                        else (\<lambda>a. a)) (a\<lparr>PluginEnv := Some env'\<rparr>)))
             else if \<not> enable \<and> active then
               (case DeactivatePlugin env i of
                  (Some err, env') \<Rightarrow>
                    l4g (l4g_Error (env_error_text err)) (a\<lparr>PluginEnv := Some env'\<rparr>)
                | (None, env') \<Rightarrow>
                    l4g (l4g_Info (''Deactivated '' @ i @ '' plugin''))
                      ((if HasClient (Manifest plugin)
                        then Publish (deactivated_message (Manifest plugin))
                        else (\<lambda>a. a)) (a\<lparr>PluginEnv := Some env'\<rparr>)))
             else a)"

definition ActivatePlugins :: "'db App \<Rightarrow> 'db App" where
  "ActivatePlugins a =
     (case PluginEnv a of
        None \<Rightarrow> l4g (l4g_Error ''plugin env not initialized'') a
      | Some env \<Rightarrow>
          (case Plugins env of
             Inl err \<Rightarrow> l4g (l4g_Error (''failed to activate plugins: '' @ env_error_text err)) a
           | Inr plugins \<Rightarrow> fold activate_one plugins a))"

text \<open>
  What a reconciliation pass leaves in the active set, from the active set before it:
  the installed plugins that are enabled and start are added, the installed plugins
  that are disabled and stop are removed.
\<close>

definition reconciled :: "PluginSettings \<Rightarrow> Environment \<Rightarrow> BundleInfo list \<Rightarrow> string set" where
  "reconciled cfg env ps =
     (activePlugins env \<union>
        {i \<in> set (map (\<lambda>b. ManifestId (Manifest b)) ps). pluginState_Enable cfg i \<and> OnActivate env i = None})
     - {i \<in> set (map (\<lambda>b. ManifestId (Manifest b)) ps). \<not> pluginState_Enable cfg i \<and> OnDeactivate env i = None}"

text \<open>The notification a pass publishes for a bundle, from the active set before the
  pass: one message if the bundle has a client component and its desired and actual
  states differ, none otherwise.\<close>

definition notification :: "PluginSettings \<Rightarrow> string set \<Rightarrow> BundleInfo \<Rightarrow> WebSocketEvent list" where
  "notification cfg act p =
     (let i = ManifestId (Manifest p) in
      if HasClient (Manifest p) \<and> pluginState_Enable cfg i \<and> i \<notin> act
        then [activated_message (Manifest p)]
      else if HasClient (Manifest p) \<and> \<not> pluginState_Enable cfg i \<and> i \<in> act
        then [deactivated_message (Manifest p)]
      else [])"

text \<open>The plugin a published message is about: the identifier in its manifest.\<close>

fun event_plugin :: "WebSocketEvent \<Rightarrow> string" where
  "event_plugin (NewWebSocketEvent name m) = ManifestId m"


text \<open>Every hook the pass has to call succeeds: the startup of each installed plugin
  that is enabled and inactive, the shutdown of each that is disabled and active.\<close>

definition hooks_succeed :: "PluginSettings \<Rightarrow> Environment \<Rightarrow> BundleInfo list \<Rightarrow> bool" where
  "hooks_succeed cfg env ps =
     (\<forall>p \<in> set ps.
        (pluginState_Enable cfg (ManifestId (Manifest p)) \<and>
           ManifestId (Manifest p) \<notin> activePlugins env \<longrightarrow>
             OnActivate env (ManifestId (Manifest p)) = None) \<and>
        (\<not> pluginState_Enable cfg (ManifestId (Manifest p)) \<and>
           ManifestId (Manifest p) \<in> activePlugins env \<longrightarrow>
             OnDeactivate env (ManifestId (Manifest p)) = None))"

section \<open>The request router: \<open>ServePluginRequest\<close> (app/plugin.go)\<close>

text \<open>
  Modelled from the spec: the constants of package \<open>model\<close> that the handler uses are
  declared outside the given sources. The spec has an authorization header with a bearer
  and a token scheme, a session cookie, and a client-requested-with marker; the strings
  are those of package \<open>model\<close>.
\<close>

definition HEADER_AUTH :: string where "HEADER_AUTH = ''Authorization''"
definition HEADER_BEARER :: string where "HEADER_BEARER = ''BEARER''"
definition HEADER_TOKEN :: string where "HEADER_TOKEN = ''token''"
definition HEADER_REQUESTED_WITH :: string where "HEADER_REQUESTED_WITH = ''X-Requested-With''"
definition HEADER_REQUESTED_WITH_XML :: string where "HEADER_REQUESTED_WITH_XML = ''XMLHttpRequest''"
definition SESSION_COOKIE_TOKEN :: string where "SESSION_COOKIE_TOKEN = ''MMAUTHTOKEN''"

text \<open>
  An \<open>http.Request\<close>, as far as the handler reads and writes it: the method; the headers
  other than \<open>Cookie\<close>, by canonical name, each with its values; the cookies of the
  \<open>Cookie\<close> header in order (\<open>r.Cookies()\<close>); the parsed query of the URL
  (\<open>r.URL.Query()\<close>, which \<open>Encode\<close> writes back to \<open>RawQuery\<close>); the route variables
  (\<open>mux.Vars\<close>); and the values of the request's context.
\<close>

record Cookie =
  Name :: string
  CookieValue :: string

record Request =
  Method :: string
  Header :: "string \<rightharpoonup> string list"
  Cookies :: "Cookie list"
  Query :: "string \<rightharpoonup> string list"
  Vars :: "string \<rightharpoonup> string"
  Context :: "string \<rightharpoonup> string"

text \<open>\<open>Header.Get\<close> and \<open>Values.Get\<close>: the first value of the key, or the empty string.\<close>

definition values_Get :: "(string \<rightharpoonup> string list) \<Rightarrow> string \<Rightarrow> string" where
  "values_Get m k = (case m k of Some (v # vs) \<Rightarrow> v | _ \<Rightarrow> [])"

text \<open>\<open>r.Cookie(name)\<close>: the first cookie of that name, or \<open>nil\<close>.\<close>

definition request_Cookie :: "Request \<Rightarrow> string \<Rightarrow> Cookie option" where
  "request_Cookie r n = find (\<lambda>c. Name c = n) (Cookies r)"

definition AddCookie :: "Cookie \<Rightarrow> Request \<Rightarrow> Request" where
  "AddCookie c r = r\<lparr>Cookies := Cookies r @ [c]\<rparr>"

text \<open>
  \<open>strings.ToUpper\<close> and \<open>strings.ToLower\<close> map every rune of the string, not only the
  ASCII letters. The handler compares the result with an ASCII prefix only, so what
  matters is which bytes of the result are ASCII letters: those that come from an ASCII
  letter, and those that come from one of the four runes outside ASCII whose other case
  is an ASCII letter: U+0131 (bytes C4 B1) and U+017F (C5 BF), whose upper case is \<open>I\<close>
  and \<open>S\<close>, and U+0130 (C4 B0) and the Kelvin sign U+212A (E2 84 AA), whose lower case
  is \<open>i\<close> and \<open>k\<close>. Every other rune outside ASCII maps to a rune outside ASCII; its
  bytes are kept here as they are.
\<close>

definition byte_values :: "string \<Rightarrow> nat list" where
  "byte_values s = map of_char s"

definition upper_byte :: "char \<Rightarrow> char" where
  "upper_byte c = (if 97 \<le> (of_char c :: nat) \<and> (of_char c :: nat) \<le> 122
                   then char_of ((of_char c :: nat) - 32) else c)"

definition lower_byte :: "char \<Rightarrow> char" where
  "lower_byte c = (if 65 \<le> (of_char c :: nat) \<and> (of_char c :: nat) \<le> 90
                   then char_of ((of_char c :: nat) + 32) else c)"

function ToUpper :: "string \<Rightarrow> string" where
  "ToUpper [] = []"
| "ToUpper (c # cs) =
     (if byte_values (take 2 (c # cs)) = [0xC4, 0xB1] then CHR ''I'' # ToUpper (drop 1 cs)
      else if byte_values (take 2 (c # cs)) = [0xC5, 0xBF] then CHR ''S'' # ToUpper (drop 1 cs)
      else upper_byte c # ToUpper cs)"
  by pat_completeness auto
termination
  by (relation "measure length") simp_all

function ToLower :: "string \<Rightarrow> string" where
  "ToLower [] = []"
| "ToLower (c # cs) =
     (if byte_values (take 2 (c # cs)) = [0xC4, 0xB0] then CHR ''i'' # ToLower (drop 1 cs)
      else if byte_values (take 3 (c # cs)) = [0xE2, 0x84, 0xAA]
        then CHR ''k'' # ToLower (drop 2 cs)
      else lower_byte c # ToLower cs)"
  by pat_completeness auto
termination
  by (relation "measure length") simp_all

text \<open>\<open>strings.HasPrefix\<close>\<close>

definition HasPrefix :: "string \<Rightarrow> string \<Rightarrow> bool" where
  "HasPrefix s p = (take (length p) s = p)"

text \<open>What the handler does with a request: it writes an error response itself, it
  hands the request to the hooks of the plugin environment, or it panics.\<close>

datatype served = Responded AppError | Forwarded Request | Panicked string

text \<open>The credential of a request: the authorization header with the bearer or the
  token scheme, else the session cookie (for a GET or an XMLHttpRequest), else the query
  parameter \<open>access_token\<close>.\<close>

definition request_token :: "Request \<Rightarrow> string" where
  "request_token r =
     (let authHeader = values_Get (Header r) HEADER_AUTH in
      if HasPrefix (ToUpper authHeader) (HEADER_BEARER @ '':'') then
        drop (length HEADER_BEARER + 1) authHeader
      else if HasPrefix (ToLower authHeader) (HEADER_TOKEN @ '':'') then
        drop (length HEADER_TOKEN + 1) authHeader
      else case request_Cookie r SESSION_COOKIE_TOKEN of
        Some cookie \<Rightarrow>
          if Method r = ''GET'' \<or>
             values_Get (Header r) HEADER_REQUESTED_WITH = HEADER_REQUESTED_WITH_XML
          then CookieValue cookie
          else values_Get (Query r) ''access_token''
      | None \<Rightarrow> values_Get (Query r) ''access_token'')"

text \<open>
  Lines 394 to 399: the header \<open>Mattermost-User-Id\<close> is deleted; then, for a non-empty
  token, the session is looked up and the header is set from \<open>session.UserId\<close> when
  \<open>err != nil\<close>. When \<open>GetSession\<close> returns an error there is no session, and reading
  \<open>session.UserId\<close> dereferences \<open>nil\<close>: the handler panics (\<open>None\<close>).
\<close>

definition attach_user :: "'db App \<Rightarrow> string \<Rightarrow> Request \<Rightarrow> Request option" where
  "attach_user a token r =
     (let r1 = r\<lparr>Header := (Header r)(''Mattermost-User-Id'' := None)\<rparr> in
      if token \<noteq> [] then
        (case GetSession a token of
           Inl err \<Rightarrow> None
         | Inr session \<Rightarrow> Some r1)
      else Some r1)"

text \<open>Lines 401 to 413: the cookies other than the session cookie are put back, the
  authorization and referer headers and the query parameter are removed.\<close>

definition strip_credentials :: "Request \<Rightarrow> Request" where
  "strip_credentials r =
     (let cookies = Cookies r;
          r1 = r\<lparr>Cookies := []\<rparr>;
          r2 = fold AddCookie (filter (\<lambda>c. Name c \<noteq> SESSION_COOKIE_TOKEN) cookies) r1;
          r3 = r2\<lparr>Header := (Header r2)(HEADER_AUTH := None)\<rparr>;
          r4 = r3\<lparr>Header := (Header r3)(''Referer'' := None)\<rparr>
      in r4\<lparr>Query := (Query r4)(''access_token'' := None)\<rparr>)"

definition ServePluginRequest :: "'db App \<Rightarrow> Request \<Rightarrow> served \<times> 'db App" where
  "ServePluginRequest a r =
     (if PluginEnv a = None \<or> \<not> Enable (Config a) then
        (let err = NewAppError ''ServePluginRequest'' ''app.plugin.disabled.app_error'' []
                     ''Enable plugins to serve plugin requests'' StatusNotImplemented
         in (Responded err, l4g (l4g_Error (AppError_text err)) a))
      else
        (case attach_user a (request_token r) r of
           None \<Rightarrow> (Panicked ''invalid memory address or nil pointer dereference'', a)
         | Some r1 \<Rightarrow>
             (let r2 = strip_credentials r1;
                  params = Vars r2
              in (Forwarded (r2\<lparr>Context := (Context r2)(''plugin_id'' \<mapsto>
                                (case params ''plugin_id'' of Some v \<Rightarrow> v | None \<Rightarrow> []))\<rparr>), a))))"


section \<open>The bundle installer: \<open>InstallPlugin\<close> (app/plugin.go)\<close>

subsection \<open>The file system\<close>

text \<open>
  A path is the list of its components. The file system is the list of its entries, each
  a path with a directory or a file; a new entry goes to the end, and \<open>map_of\<close> looks a
  path up. A file is either the encoding of a manifest or other bytes: decoding a
  manifest file is outside this model.
\<close>

type_synonym path = "string list"

datatype file_content = ManifestFile Manifest | Bytes string

datatype fs_node = Dir | File file_content

type_synonym filesystem = "(path \<times> fs_node) list"

text \<open>\<open>is_under d q\<close>: the path \<open>q\<close> is \<open>d\<close> or lies below it.\<close>

definition is_under :: "path \<Rightarrow> path \<Rightarrow> bool" where
  "is_under d q = (take (length d) q = d)"

fun fs_write :: "path \<Rightarrow> fs_node \<Rightarrow> filesystem \<Rightarrow> filesystem" where
  "fs_write p n [] = [(p, n)]"
| "fs_write p n ((q, m) # fs) = (if q = p then (p, n) # fs else (q, m) # fs_write p n fs)"

text \<open>
  \<open>ioutil.TempDir("", "plugintmp")\<close> creates a directory that did not exist, under the
  default directory for temporary files. The path the operating system picks is an
  input, \<open>tmpDir\<close>; the call fails when that path exists or its parent is not a directory.
\<close>

definition TempDir :: "path \<Rightarrow> filesystem \<Rightarrow> string + filesystem" where
  "TempDir tmpDir fs =
     (if tmpDir = [] \<or> map_of fs tmpDir \<noteq> None \<or> map_of fs (butlast tmpDir) \<noteq> Some Dir
      then Inl ''mkdir failed''
      else Inr (fs @ [(tmpDir, Dir)]))"

text \<open>\<open>os.RemoveAll\<close>: the path and everything below it is removed. The model has no
  failure of the removal (the deferred call ignores its error).\<close>

definition RemoveAll :: "path \<Rightarrow> filesystem \<Rightarrow> filesystem" where
  "RemoveAll d fs = filter (\<lambda>(q, n). \<not> is_under d q) fs"

text \<open>\<open>ioutil.ReadDir\<close>: the entries directly in a directory, each with its name and
  whether it is a directory.\<close>

record FileInfo =
  FileName :: string
  IsDir :: bool

definition ReadDir :: "filesystem \<Rightarrow> path \<Rightarrow> string + FileInfo list" where
  "ReadDir fs d =
     (if map_of fs d \<noteq> Some Dir then Inl ''not a directory''
      else Inr (map (\<lambda>(q, n). \<lparr>FileName = last q, IsDir = (n = Dir)\<rparr>)
                  (filter (\<lambda>(q, n). q \<noteq> [] \<and> butlast q = d) fs)))"

text \<open>
  Modelled from the spec: \<open>utils.ExtractTarGz\<close> is outside the given sources. It
  extracts the archive into the given directory. The archive is the list of its
  entries, directories and files with paths relative to the root of the archive; an
  unreadable entry stops the extraction with an error, and what was extracted before it
  stays. The directories above an entry are created with it.
\<close>

datatype tar_entry = TarDir path | TarFile path file_content | TarCorrupt string

fun MkdirAll :: "path \<Rightarrow> path \<Rightarrow> filesystem \<Rightarrow> filesystem" where
  "MkdirAll dst [] fs = fs"
| "MkdirAll dst (c # cs) fs =
     (let d = dst @ [c];
          fs1 = (if map_of fs d = None then fs_write d Dir fs else fs)
      in MkdirAll d cs fs1)"

fun ExtractTarGz :: "tar_entry list \<Rightarrow> path \<Rightarrow> filesystem \<Rightarrow> string option \<times> filesystem" where
  "ExtractTarGz [] dst fs = (None, fs)"
| "ExtractTarGz (TarCorrupt msg # rest) dst fs = (Some msg, fs)"
| "ExtractTarGz (TarDir p # rest) dst fs = ExtractTarGz rest dst (MkdirAll dst p fs)"
| "ExtractTarGz (TarFile p c # rest) dst fs =
     ExtractTarGz rest dst (fs_write (dst @ p) (File c) (MkdirAll dst (butlast p) fs))"

text \<open>
  Modelled from the spec: \<open>model.FindManifest\<close> is outside the given sources. It parses
  the manifest from the bundle root; failing to find or to parse it is an error.
\<close>

definition FindManifest :: "filesystem \<Rightarrow> path \<Rightarrow> string + Manifest" where
  "FindManifest fs dir =
     (case map_of fs (dir @ [''plugin.json'']) of
        Some (File (ManifestFile m)) \<Rightarrow> Inr m
      | Some (File (Bytes b)) \<Rightarrow> Inl ''cannot parse the manifest''
      | _ \<Rightarrow> Inl ''no manifest found'')"

text \<open>
  Modelled from the spec: \<open>utils.CopyDir\<close> is outside the given sources. It copies the
  directory \<open>src\<close> with everything below it to \<open>dst\<close>; it fails when \<open>src\<close> is not a
  directory or \<open>dst\<close> exists.
\<close>

definition CopyDir :: "path \<Rightarrow> path \<Rightarrow> filesystem \<Rightarrow> string option \<times> filesystem" where
  "CopyDir src dst fs =
     (if map_of fs src \<noteq> Some Dir then (Some ''source is not a directory'', fs)
      else if map_of fs dst \<noteq> None then (Some ''destination already exists'', fs)
      else (None, fs @ map (\<lambda>(q, n). (dst @ drop (length src) q, n))
                         (filter (\<lambda>(q, n). is_under src q) fs)))"

text \<open>
  \<open>filepath.Join(dir, name)\<close> for a directory that is already clean: the elements of
  \<open>name\<close> between separators are put below \<open>dir\<close> and the result is cleaned; an empty
  element and \<open>.\<close> are dropped, \<open>..\<close> removes the component before it (at the root there
  is none to remove).
\<close>

fun path_elements :: "string \<Rightarrow> string list" where
  "path_elements [] = [[]]"
| "path_elements (c # cs) =
     (if c = CHR ''/'' then [] # path_elements cs
      else (case path_elements cs of
              x # xs \<Rightarrow> (c # x) # xs
            | [] \<Rightarrow> [[c]]))"

fun clean_onto :: "path \<Rightarrow> string list \<Rightarrow> path" where
  "clean_onto dir [] = dir"
| "clean_onto dir (e # es) =
     (if e = [] \<or> e = ''.'' then clean_onto dir es
      else if e = ''..'' then clean_onto (butlast dir) es
      else clean_onto (dir @ [e]) es)"

definition filepath_Join :: "path \<Rightarrow> string \<Rightarrow> path" where
  "filepath_Join dir name = clean_onto dir (path_elements name)"

subsection \<open>\<open>InstallPlugin\<close>\<close>

text \<open>Lines 125 to 133: the bundle root is the only entry of the extraction directory
  when that is a directory, else the extraction directory itself.\<close>

definition bundle_root :: "path \<Rightarrow> FileInfo list \<Rightarrow> path" where
  "bundle_root tmpDir dir =
     (if length dir = 1 \<and> IsDir (dir ! 0) then tmpDir @ [FileName (dir ! 0)] else tmpDir)"

text \<open>Lines 121 to 158, between the creation of the temporary directory and its
  deferred removal.\<close>

definition install_from :: "Environment \<Rightarrow> path \<Rightarrow> tar_entry list \<Rightarrow> filesystem \<Rightarrow> (AppError + Manifest) \<times> filesystem" where
  "install_from env tmpDir pluginFile fs1 =
     (case ExtractTarGz pluginFile tmpDir fs1 of
        (Some err, fs2) \<Rightarrow>
          (Inl (NewAppError ''InstallPlugin'' ''app.plugin.extract.app_error'' [] err
                  StatusBadRequest), fs2)
      | (None, fs2) \<Rightarrow>
          (case ReadDir fs2 tmpDir of
             Inl err \<Rightarrow>
               (Inl (NewAppError ''InstallPlugin'' ''app.plugin.filesystem.app_error'' [] err
                       StatusInternalServerError), fs2)
           | Inr dir \<Rightarrow>
               (let tmpPluginDir = bundle_root tmpDir dir in
                case FindManifest fs2 tmpPluginDir of
                  Inl err \<Rightarrow>
                    (Inl (NewAppError ''InstallPlugin'' ''app.plugin.manifest.app_error'' [] err
                            StatusBadRequest), fs2)
                | Inr manifest \<Rightarrow>
                    (case Plugins env of
                       Inl err \<Rightarrow>
                         (Inl (NewAppError ''InstallPlugin'' ''app.plugin.install.app_error'' []
                                 (env_error_text err) StatusInternalServerError), fs2)
                     | Inr bs \<Rightarrow>
                         if \<exists>bundle \<in> set bs.
                              ManifestId (Manifest bundle) = ManifestId manifest
                         then
                           (Inl (NewAppError ''InstallPlugin'' ''app.plugin.install_id.app_error''
                                   [] [] StatusBadRequest), fs2)
                         else
                           (case CopyDir tmpPluginDir
                                   (filepath_Join (SearchPath env) (ManifestId manifest)) fs2 of
                              (Some err, fs3) \<Rightarrow>
                                (Inl (NewAppError ''InstallPlugin'' ''app.plugin.mvdir.app_error''
                                        [] err StatusInternalServerError), fs3)
                            | (None, fs3) \<Rightarrow> (Inr manifest, fs3))))))"

definition InstallPlugin :: "'db App \<Rightarrow> path \<Rightarrow> tar_entry list \<Rightarrow> filesystem \<Rightarrow> (AppError + Manifest) \<times> filesystem" where
  "InstallPlugin a tmpDir pluginFile fs =
     (case PluginEnv a of
        None \<Rightarrow>
          (Inl (NewAppError ''InstallPlugin'' ''app.plugin.disabled.app_error'' [] []
                  StatusNotImplemented), fs)
      | Some env \<Rightarrow>
          if \<not> Enable (Config a) then
            (Inl (NewAppError ''InstallPlugin'' ''app.plugin.disabled.app_error'' [] []
                    StatusNotImplemented), fs)
          else
            (case TempDir tmpDir fs of
               Inl err \<Rightarrow>
                 (Inl (NewAppError ''InstallPlugin'' ''app.plugin.filesystem.app_error'' [] err
                         StatusInternalServerError), fs)
             | Inr fs1 \<Rightarrow>
                 (case install_from env tmpDir pluginFile fs1 of
                    (result, fs') \<Rightarrow> (result, RemoveAll tmpDir fs'))))"

text \<open>Every entry of the file system but the root has its parent among the entries.\<close>

definition fs_wf :: "filesystem \<Rightarrow> bool" where
  "fs_wf fs = (\<forall>q \<in> set (map fst fs). q \<noteq> [] \<longrightarrow> butlast q \<in> set (map fst fs))"


section \<open>A reference database\<close>

text \<open>
  Modelled from the spec: the database is an external collaborator, "a table with a
  primary-key column holding the hashed key and a value column". \<open>sql_table\<close> is that
  table with no failures of its own: an update changes the row if it exists, an insert of
  an existing key violates the primary key, a select of a missing key has no rows, and a
  delete of a missing key deletes nothing.
\<close>

type_synonym kv_table = "string \<rightharpoonup> byte list"

definition table_Update :: "kv_table \<Rightarrow> PluginKeyValue \<Rightarrow> (db_error + int) \<times> kv_table" where
  "table_Update t kv =
     (if t (Key kv) = None then (Inr 0, t) else (Inr 1, t(Key kv \<mapsto> Value kv)))"

definition table_Insert :: "kv_table \<Rightarrow> PluginKeyValue \<Rightarrow> db_error option \<times> kv_table" where
  "table_Insert t kv =
     (if t (Key kv) = None then (None, t(Key kv \<mapsto> Value kv))
      else (Some (UniqueConstraint ''PKey''), t))"

fun table_Exec :: "kv_table \<Rightarrow> sql_stmt \<Rightarrow> db_error option \<times> kv_table" where
  "table_Exec t (InsertOnDuplicateKeyUpdate k v) = (None, t(k \<mapsto> v))"
| "table_Exec t (DeleteWherePKey k) = (None, t(k := None))"
| "table_Exec t (SelectWherePKey k) = (None, t)"

fun table_SelectOne :: "kv_table \<Rightarrow> sql_stmt \<Rightarrow> (db_error + PluginKeyValue) \<times> kv_table" where
  "table_SelectOne t (SelectWherePKey k) =
     (case t k of None \<Rightarrow> (Inl ErrNoRows, t) | Some v \<Rightarrow> (Inr \<lparr>Key = k, Value = v\<rparr>, t))"
| "table_SelectOne t _ = (Inl (DriverError ''not a query''), t)"

definition sql_table :: "kv_table DbMap" where
  "sql_table =
     \<lparr>db_Update = table_Update, db_Insert = table_Insert,
      db_Exec = table_Exec, db_SelectOne = table_SelectOne\<rparr>"

text \<open>
  The race of the update-then-insert upsert: the update finds no row, and before the
  insert runs another session commits a row with the same key and the value \<open>other\<close>.
\<close>

definition racing_table :: "byte list \<Rightarrow> kv_table DbMap" where
  "racing_table other =
     sql_table\<lparr>db_Update := (\<lambda>t kv.
        case table_Update t kv of
          (Inr n, t') \<Rightarrow> if n = 0 then (Inr 0, t'(Key kv \<mapsto> other)) else (Inr n, t')
        | (Inl err, t') \<Rightarrow> (Inl err, t'))\<rparr>"

text \<open>
  The same race on a database that reports the violated constraint under the name
  PostgreSQL gives the primary key of the table, the table's name in lower case followed
  by \<open>_pkey\<close>.
\<close>

definition postgres_Insert :: "kv_table \<Rightarrow> PluginKeyValue \<Rightarrow> db_error option \<times> kv_table" where
  "postgres_Insert t kv =
     (if t (Key kv) = None then (None, t(Key kv \<mapsto> Value kv))
      else (Some (UniqueConstraint ''pluginkeyvaluestore_pkey''), t))"

definition postgres_racing_table :: "byte list \<Rightarrow> kv_table DbMap" where
  "postgres_racing_table other = (racing_table other)\<lparr>db_Insert := postgres_Insert\<rparr>"

text \<open>A connection that is down: every call fails.\<close>

definition broken_db :: "string \<Rightarrow> kv_table DbMap" where
  "broken_db msg =
     \<lparr>db_Update = (\<lambda>t kv. (Inl (DriverError msg), t)),
      db_Insert = (\<lambda>t kv. (Some (DriverError msg), t)),
      db_Exec = (\<lambda>t q. (Some (DriverError msg), t)),
      db_SelectOne = (\<lambda>t q. (Inl (DriverError msg), t))\<rparr>"

text \<open>An application with an empty table behind the given driver, no plugin
  environment yet and no session.\<close>

definition fresh_app :: "driver_name \<Rightarrow> kv_table App" where
  "fresh_app d =
     \<lparr>PluginEnv = None,
      Config = \<lparr>Enable = True, PluginStates = Map.empty\<rparr>,
      Store = \<lparr>DriverName = d, database = Map.empty, calls = []\<rparr>,
      GetSession = (\<lambda>token. Inl (NewAppError ''GetSession''
                      ''api.context.invalid_token.error'' [] [] 401)),
      Published = [], Log = []\<rparr>"

section \<open>Sample plugins\<close>

text \<open>Two plugins \<open>jira\<close> and \<open>zoom\<close>, both with a client component, and an application
  where \<open>jira\<close> is enabled and inactive and \<open>zoom\<close> is disabled and active; the startup
  of the plugins listed in \<open>bad\<close> fails.\<close>

definition jira_bundle :: BundleInfo where
  "jira_bundle = \<lparr>Path = [''plugins'', ''jira''],
     Manifest = \<lparr>ManifestId = ''jira'', Version = ''1.0'', HasClient = True\<rparr>\<rparr>"

definition zoom_bundle :: BundleInfo where
  "zoom_bundle = \<lparr>Path = [''plugins'', ''zoom''],
     Manifest = \<lparr>ManifestId = ''zoom'', Version = ''2.1'', HasClient = True\<rparr>\<rparr>"

definition sample_env :: "string list \<Rightarrow> Environment" where
  "sample_env bad =
     \<lparr>SearchPath = [''plugins''],
      bundles = Inr [jira_bundle, zoom_bundle],
      activePlugins = {''zoom''},
      OnActivate = (\<lambda>i. if i \<in> set bad then Some ''startup failed'' else None),
      OnDeactivate = (\<lambda>i. None)\<rparr>"

definition sample_app :: "string list \<Rightarrow> kv_table App" where
  "sample_app bad =
     (fresh_app DATABASE_DRIVER_POSTGRES)
       \<lparr>PluginEnv := Some (sample_env bad),
        Config := \<lparr>Enable = True, PluginStates = [''jira'' \<mapsto> True, ''zoom'' \<mapsto> False]\<rparr>\<rparr>"

text \<open>A GET request for the plugin \<open>jira\<close> that carries the credential \<open>secret\<close> in the
  given places, and an application with plugins enabled where \<open>secret\<close> is the token of
  a session of user \<open>u1\<close>.\<close>

definition sample_request :: "(string \<rightharpoonup> string list) \<Rightarrow> Cookie list \<Rightarrow> (string \<rightharpoonup> string list) \<Rightarrow> Request" where
  "sample_request hdr cs q =
     \<lparr>Method = ''GET'', Header = hdr, Cookies = cs, Query = q,
      Vars = [''plugin_id'' \<mapsto> ''jira''], Context = Map.empty\<rparr>"

definition session_app :: "kv_table App" where
  "session_app =
     (sample_app [])\<lparr>GetSession := (\<lambda>token.
        if token = ''secret'' then Inr \<lparr>UserId = ''u1''\<rparr>
        else Inl (NewAppError ''GetSession'' ''api.context.invalid_token.error'' [] [] 401))\<rparr>"

text \<open>A file system with the plugin \<open>jira\<close> installed under \<open>plugins\<close>, and an archive
  of a plugin with the same identifier, wrapped in one folder.\<close>

definition sample_fs :: filesystem where
  "sample_fs =
     [([], Dir), ([''tmp''], Dir), ([''plugins''], Dir), ([''plugins'', ''jira''], Dir),
      ([''plugins'', ''jira'', ''plugin.json''], File (ManifestFile (Manifest jira_bundle)))]"

definition sample_archive :: "tar_entry list" where
  "sample_archive =
     [TarDir [''jira-2''],
      TarFile [''jira-2'', ''plugin.json'']
        (ManifestFile \<lparr>ManifestId = ''jira'', Version = ''2.0'', HasClient = False\<rparr>),
      TarFile [''jira-2'', ''server'', ''plugin.exe''] (Bytes ''binary'')]"


section \<open>Properties of the key hasher\<close>

lemma length_fnv_Sum: "length (fnv_Sum h) = 16"
  by (simp add: fnv_Sum_def)

lemma length_EncodeToString: "length (EncodeToString bs) = 4 * ((length bs + 2) div 3)"
proof (induction bs rule: EncodeToString.induct)
  case (1 a b c rest)
  have "(length rest + 5) div 3 = Suc ((length rest + 2) div 3)"
    by arith
  with 1 show ?case
    by (simp add: Let_def add.commute)
qed (simp_all add: Let_def)

lemma length_key_hash: "length (EncodeToString (fnv_Sum h)) = 24"
  by (simp add: length_EncodeToString length_fnv_Sum)

lemma getKeyHash_ok:
  "pluginId \<noteq> [] \<Longrightarrow> key \<noteq> [] \<Longrightarrow>
   getKeyHash pluginId key =
     Inr (EncodeToString (fnv_Sum (fnv_Write New128a (bytes_of (pluginId @ key)))))"
  by (simp add: getKeyHash_def)

lemma rune_count_le: "rune_count s \<le> length s"
  by (induction s rule: rune_count.induct) auto

lemma IsValid_short: "Key kv \<noteq> [] \<Longrightarrow> length (Key kv) \<le> 128 \<Longrightarrow> IsValid kv = None"
  using rune_count_le [of "map of_char (Key kv)"]
  by (simp add: IsValid_def RuneCountInString_def KEY_VALUE_KEY_MAX_RUNES_def)

lemma IsValid_key_hash: "IsValid \<lparr>Key = EncodeToString (fnv_Sum h), Value = v\<rparr> = None"
proof -
  have "length (EncodeToString (fnv_Sum h)) = 24"
    by (rule length_key_hash)
  then show ?thesis
    by (intro IsValid_short) auto
qed

text \<open>
  C2, as stated, fails: the hasher sees only the concatenation of the two components, so
  the distinct pairs \<open>(a, bc)\<close> and \<open>(ab, c)\<close> get the same hashed key.
\<close>

theorem getKeyHash_collision:
  "(''a'', ''bc'') \<noteq> (''ab'', ''c'') \<and>
   getKeyHash ''a'' ''bc'' = Inr ''po1iLOyLWCKDbbx5d69/Ow=='' \<and>
   getKeyHash ''ab'' ''c'' = Inr ''po1iLOyLWCKDbbx5d69/Ow==''"
  by code_simp

text \<open>
  C2 (amended): for non-empty components the hasher succeeds with a key of exactly 24
  characters that is determined by the concatenation of the identifier and the raw key:
  two pairs with the same concatenation get the same hashed key.
\<close>

theorem getKeyHash_of_concatenation:
  assumes "pluginId1 \<noteq> []" "key1 \<noteq> []" "pluginId2 \<noteq> []" "key2 \<noteq> []"
    and "pluginId1 @ key1 = pluginId2 @ key2"
  shows "\<exists>h. getKeyHash pluginId1 key1 = Inr h \<and> getKeyHash pluginId2 key2 = Inr h \<and>
             length h = 24"
  using assms by (simp add: getKeyHash_def length_key_hash)

theorem getKeyHash_of_concatenation_witness:
  "''jira'' \<noteq> [] \<and> ''token'' \<noteq> [] \<and> ''jir'' \<noteq> [] \<and> ''atoken'' \<noteq> [] \<and>
   ''jira'' @ ''token'' = ''jir'' @ ''atoken'' \<and>
   (\<exists>h. getKeyHash ''jira'' ''token'' = Inr h \<and> getKeyHash ''jir'' ''atoken'' = Inr h \<and>
        length h = 24)"
  using getKeyHash_of_concatenation [of "''jira''" "''token''" "''jir''" "''atoken''"]
  by simp

section \<open>Properties of the key-value operations\<close>

text \<open>
  C9: when the plugin identifier or the key is empty, the hasher fails with a
  bad-request error, and Set, Get and Delete return that error with the application,
  its store and the calls made on the connection unchanged; when both are non-empty
  the hasher succeeds.
\<close>

theorem empty_component_rejected:
  "(pluginId = [] \<or> key = [] \<longrightarrow>
      (\<exists>e. getKeyHash pluginId key = Inl e \<and> StatusCode e = StatusBadRequest \<and>
           SetPluginKey drv a pluginId key v = (Some e, a) \<and>
           GetPluginKey drv a pluginId key = ((None, Some e), a) \<and>
           DeletePluginKey drv a pluginId key = (Some e, a))) \<and>
   (pluginId \<noteq> [] \<and> key \<noteq> [] \<longrightarrow> (\<exists>h. getKeyHash pluginId key = Inr h))"
  by (simp add: getKeyHash_def SetPluginKey_def GetPluginKey_def DeletePluginKey_def
      NewAppError_def)


theorem empty_component_rejected_witness:
  "(\<exists>e. getKeyHash '''' ''token'' = Inl e \<and> StatusCode e = StatusBadRequest \<and>
        SetPluginKey sql_table (fresh_app DATABASE_DRIVER_POSTGRES) '''' ''token'' [1] =
          (Some e, fresh_app DATABASE_DRIVER_POSTGRES) \<and>
        GetPluginKey sql_table (fresh_app DATABASE_DRIVER_POSTGRES) '''' ''token'' =
          ((None, Some e), fresh_app DATABASE_DRIVER_POSTGRES) \<and>
        DeletePluginKey sql_table (fresh_app DATABASE_DRIVER_POSTGRES) '''' ''token'' =
          (Some e, fresh_app DATABASE_DRIVER_POSTGRES)) \<and>
   (\<exists>h. getKeyHash ''jira'' ''token'' = Inr h)"
  using empty_component_rejected [of "''''" "''token''" sql_table
      "fresh_app DATABASE_DRIVER_POSTGRES" "[1]"]
    empty_component_rejected [of "''jira''" "''token''" sql_table
      "fresh_app DATABASE_DRIVER_POSTGRES" "[1]"]
  by simp


lemma getKeyHash_Inr:
  "getKeyHash pluginId key = Inr h \<Longrightarrow>
   pluginId \<noteq> [] \<and> key \<noteq> [] \<and>
   h = EncodeToString (fnv_Sum (fnv_Write New128a (bytes_of (pluginId @ key))))"
  by (auto simp: getKeyHash_def split: if_splits)

lemma IsValid_getKeyHash:
  "getKeyHash pluginId key = Inr h \<Longrightarrow> IsValid \<lparr>Key = h, Value = v\<rparr> = None"
  by (auto dest!: getKeyHash_Inr simp: IsValid_key_hash)

lemma StatusCode_save_error: "StatusCode (save_error err) = StatusInternalServerError"
  by (simp add: save_error_def NewAppError_def)

lemma SaveOrUpdate_postgres:
  assumes "DriverName ps = DATABASE_DRIVER_POSTGRES" and "IsValid kv = None"
    and "conn_Update drv ps kv = (u, ps1)" and "conn_Insert drv ps1 kv = (i, ps2)"
  shows "SaveOrUpdate drv ps kv =
     (case u of
        Inl err \<Rightarrow> (store_err (save_error err), ps1)
      | Inr n \<Rightarrow>
          if n \<noteq> 0 then (store_ok (DataKV kv), ps1)
          else (case i of
                  None \<Rightarrow> (store_ok (DataKV kv), ps2)
                | Some err \<Rightarrow>
                    if IsUniqueConstraintError err [''PRIMARY'', ''Key'', ''PKey'']
                    then (store_ok (DataKV kv), ps2)
                    else (store_err (save_error err), ps2)))"
  using assms by (simp add: SaveOrUpdate_def split: sum.splits option.splits)

lemma SetPluginKey_result:
  assumes "getKeyHash pluginId key = Inr h"
    and "SaveOrUpdate drv (Store a) \<lparr>Key = h, Value = v\<rparr> = (r, ps')"
  shows "fst (SetPluginKey drv a pluginId key v) = Err r"
    and "Store (snd (SetPluginKey drv a pluginId key v)) = ps'"
  using assms by (simp_all add: SetPluginKey_def l4g_def split: option.splits)

text \<open>
  The PostgreSQL branch, for the record Set builds from a hashed key: SaveOrUpdate first
  calls Update. If Update fails, the result is a storage error (status 500) and no insert
  is attempted; if it affected a row, the result is success. If it affected no row,
  Insert is called: success if the insert succeeds, success as well if it fails with an
  error that \<open>IsUniqueConstraintError\<close> recognises for the names \<open>PRIMARY\<close>, \<open>Key\<close> and
  \<open>PKey\<close>, and a storage error for any other error of the insert. Set returns the same
  error, or none.
\<close>

lemma postgres_update_then_insert:
  assumes pg: "DriverName (Store a) = DATABASE_DRIVER_POSTGRES"
    and hash: "getKeyHash pluginId key = Inr h"
    and upd: "conn_Update drv (Store a) \<lparr>Key = h, Value = v\<rparr> = (u, ps1)"
    and ins: "conn_Insert drv ps1 \<lparr>Key = h, Value = v\<rparr> = (i, ps2)"
  shows
    "calls ps1 = calls (Store a) @ [CallUpdate \<lparr>Key = h, Value = v\<rparr>] \<and>
     calls ps2 = calls (Store a) @
       [CallUpdate \<lparr>Key = h, Value = v\<rparr>, CallInsert \<lparr>Key = h, Value = v\<rparr>] \<and>
     (\<forall>err. u = Inl err \<longrightarrow>
        SaveOrUpdate drv (Store a) \<lparr>Key = h, Value = v\<rparr> = (store_err (save_error err), ps1) \<and>
        fst (SetPluginKey drv a pluginId key v) = Some (save_error err) \<and>
        StatusCode (save_error err) = StatusInternalServerError) \<and>
     (\<forall>n. u = Inr n \<and> n \<noteq> 0 \<longrightarrow>
        SaveOrUpdate drv (Store a) \<lparr>Key = h, Value = v\<rparr> =
          (store_ok (DataKV \<lparr>Key = h, Value = v\<rparr>), ps1) \<and>
        fst (SetPluginKey drv a pluginId key v) = None) \<and>
     (u = Inr 0 \<and> i = None \<longrightarrow>
        SaveOrUpdate drv (Store a) \<lparr>Key = h, Value = v\<rparr> =
          (store_ok (DataKV \<lparr>Key = h, Value = v\<rparr>), ps2) \<and>
        fst (SetPluginKey drv a pluginId key v) = None) \<and>
     (\<forall>err. u = Inr 0 \<and> i = Some err \<and>
            IsUniqueConstraintError err [''PRIMARY'', ''Key'', ''PKey''] \<longrightarrow>
        SaveOrUpdate drv (Store a) \<lparr>Key = h, Value = v\<rparr> =
          (store_ok (DataKV \<lparr>Key = h, Value = v\<rparr>), ps2) \<and>
        fst (SetPluginKey drv a pluginId key v) = None) \<and>
     (\<forall>err. u = Inr 0 \<and> i = Some err \<and>
            \<not> IsUniqueConstraintError err [''PRIMARY'', ''Key'', ''PKey''] \<longrightarrow>
        SaveOrUpdate drv (Store a) \<lparr>Key = h, Value = v\<rparr> = (store_err (save_error err), ps2) \<and>
        fst (SetPluginKey drv a pluginId key v) = Some (save_error err) \<and>
        StatusCode (save_error err) = StatusInternalServerError)"
proof -
  let ?kv = "\<lparr>Key = h, Value = v\<rparr>"
  have valid: "IsValid ?kv = None"
    using hash by (rule IsValid_getKeyHash)
  have c1: "calls ps1 = calls (Store a) @ [CallUpdate ?kv]"
    using upd by (auto simp: conn_Update_def split: prod.splits)
  have c2: "calls ps2 = calls ps1 @ [CallInsert ?kv]"
    using ins by (auto simp: conn_Insert_def split: prod.splits)
  note sou = SaveOrUpdate_postgres [OF pg valid upd ins]
  show ?thesis
    using sou SetPluginKey_result(1) [OF hash, of drv a v] c1 c2
    by (auto simp: StatusCode_save_error store_ok_def store_err_def)
qed

lemma postgres_update_then_insert_recognised:
  "DriverName (Store (fresh_app DATABASE_DRIVER_POSTGRES)) = DATABASE_DRIVER_POSTGRES \<and>
   getKeyHash ''jira'' ''token'' = Inr ''7V8v4ykF+nrA9HyYyYowXg=='' \<and>
   fst (conn_Update (racing_table [2]) (Store (fresh_app DATABASE_DRIVER_POSTGRES))
          \<lparr>Key = ''7V8v4ykF+nrA9HyYyYowXg=='', Value = [1]\<rparr>) = Inr 0 \<and>
   fst (SetPluginKey (racing_table [2]) (fresh_app DATABASE_DRIVER_POSTGRES)
          ''jira'' ''token'' [1]) = None"
proof -
  let ?a = "fresh_app DATABASE_DRIVER_POSTGRES"
  let ?kv = "\<lparr>Key = ''7V8v4ykF+nrA9HyYyYowXg=='', Value = [1]\<rparr>"
  let ?drv = "racing_table [2]"
  have pg: "DriverName (Store ?a) = DATABASE_DRIVER_POSTGRES"
    by (simp add: fresh_app_def)
  have hash: "getKeyHash ''jira'' ''token'' = Inr ''7V8v4ykF+nrA9HyYyYowXg==''"
    by code_simp
  obtain u ps1 where upd: "conn_Update ?drv (Store ?a) ?kv = (u, ps1)"
    by (cases "conn_Update ?drv (Store ?a) ?kv") blast
  obtain i ps2 where ins: "conn_Insert ?drv ps1 ?kv = (i, ps2)"
    by (cases "conn_Insert ?drv ps1 ?kv") blast
  have u: "u = Inr 0" and db1: "database ps1 = [Key ?kv \<mapsto> [2]]"
    using upd
    by (auto simp: conn_Update_def racing_table_def sql_table_def table_Update_def fresh_app_def)
  have i: "i = Some (UniqueConstraint ''PKey'')"
    using ins db1
    by (auto simp: conn_Insert_def racing_table_def sql_table_def table_Insert_def)
  from postgres_update_then_insert [OF pg hash upd ins] u i upd hash pg
  show ?thesis by simp
qed


text \<open>
  C3 fails on the code. On the PostgreSQL branch, the update finds no row, another
  session commits the same key, and the insert fails with a uniqueness violation on the
  primary key of the table, reported under the name \<open>pluginkeyvaluestore_pkey\<close>. That
  name is none of \<open>PRIMARY\<close>, \<open>Key\<close> and \<open>PKey\<close>: SaveOrUpdate returns a storage error
  (status 500) and Set fails, although the only cause is that the other Set for the same
  key committed first; the row holds the other session's value.
\<close>

theorem postgres_race_reports_error:
  "DriverName (Store (fresh_app DATABASE_DRIVER_POSTGRES)) = DATABASE_DRIVER_POSTGRES \<and>
   getKeyHash ''jira'' ''token'' = Inr ''7V8v4ykF+nrA9HyYyYowXg=='' \<and>
   fst (conn_Update (postgres_racing_table [2]) (Store (fresh_app DATABASE_DRIVER_POSTGRES))
          \<lparr>Key = ''7V8v4ykF+nrA9HyYyYowXg=='', Value = [1]\<rparr>) = Inr 0 \<and>
   fst (conn_Insert (postgres_racing_table [2])
          (snd (conn_Update (postgres_racing_table [2])
                  (Store (fresh_app DATABASE_DRIVER_POSTGRES))
                  \<lparr>Key = ''7V8v4ykF+nrA9HyYyYowXg=='', Value = [1]\<rparr>))
          \<lparr>Key = ''7V8v4ykF+nrA9HyYyYowXg=='', Value = [1]\<rparr>) =
     Some (UniqueConstraint ''pluginkeyvaluestore_pkey'') \<and>
   fst (SetPluginKey (postgres_racing_table [2]) (fresh_app DATABASE_DRIVER_POSTGRES)
          ''jira'' ''token'' [1]) =
     Some (save_error (UniqueConstraint ''pluginkeyvaluestore_pkey'')) \<and>
   StatusCode (save_error (UniqueConstraint ''pluginkeyvaluestore_pkey'')) =
     StatusInternalServerError \<and>
   database (Store (snd (SetPluginKey (postgres_racing_table [2])
                           (fresh_app DATABASE_DRIVER_POSTGRES) ''jira'' ''token'' [1])))
     ''7V8v4ykF+nrA9HyYyYowXg=='' = Some [2]"
  by code_simp

text \<open>
  C10: when the driver is neither PostgreSQL nor MySQL, SaveOrUpdate of a valid record
  makes no call on the connection and leaves the store as it was, yet reports success;
  Set, for non-empty components, returns no error and leaves the whole application
  unchanged.
\<close>

theorem unrecognized_driver_no_write:
  assumes "DriverName ps \<noteq> DATABASE_DRIVER_POSTGRES"
    and "DriverName ps \<noteq> DATABASE_DRIVER_MYSQL"
  shows "(IsValid kv = None \<longrightarrow> SaveOrUpdate drv ps kv = (store_ok (DataKV kv), ps)) \<and>
         (Store a = ps \<and> pluginId \<noteq> [] \<and> key \<noteq> [] \<longrightarrow>
            SetPluginKey drv a pluginId key v = (None, a))"
proof -
  have sou: "SaveOrUpdate drv ps kv' = (store_ok (DataKV kv'), ps)" if "IsValid kv' = None" for kv'
    using assms that by (simp add: SaveOrUpdate_def)
  have "SetPluginKey drv a pluginId key v = (None, a)"
    if st: "Store a = ps" and ne: "pluginId \<noteq> []" "key \<noteq> []"
  proof -
    have h: "getKeyHash pluginId key =
        Inr (EncodeToString (fnv_Sum (fnv_Write New128a (bytes_of (pluginId @ key)))))"
      (is "_ = Inr ?h")
      using ne by (rule getKeyHash_ok)
    have "SaveOrUpdate drv (Store a) \<lparr>Key = ?h, Value = v\<rparr> =
            (store_ok (DataKV \<lparr>Key = ?h, Value = v\<rparr>), Store a)"
      using sou [OF IsValid_getKeyHash [OF h]] st by simp
    then show ?thesis
      using h by (simp add: SetPluginKey_def store_ok_def)
  qed
  with sou show ?thesis by blast
qed

theorem unrecognized_driver_no_write_witness:
  "DriverName (Store (fresh_app (OtherDriver ''sqlite3''))) \<noteq> DATABASE_DRIVER_POSTGRES \<and>
   DriverName (Store (fresh_app (OtherDriver ''sqlite3''))) \<noteq> DATABASE_DRIVER_MYSQL \<and>
   IsValid \<lparr>Key = ''k'', Value = [1]\<rparr> = None \<and>
   SaveOrUpdate sql_table (Store (fresh_app (OtherDriver ''sqlite3''))) \<lparr>Key = ''k'', Value = [1]\<rparr> =
     (store_ok (DataKV \<lparr>Key = ''k'', Value = [1]\<rparr>), Store (fresh_app (OtherDriver ''sqlite3''))) \<and>
   SetPluginKey sql_table (fresh_app (OtherDriver ''sqlite3'')) ''jira'' ''token'' [1] =
     (None, fresh_app (OtherDriver ''sqlite3''))"
proof -
  let ?a = "fresh_app (OtherDriver ''sqlite3'')"
  have d: "DriverName (Store ?a) \<noteq> DATABASE_DRIVER_POSTGRES"
      "DriverName (Store ?a) \<noteq> DATABASE_DRIVER_MYSQL"
    by (simp_all add: fresh_app_def)
  have v: "IsValid \<lparr>Key = ''k'', Value = [1]\<rparr> = None"
    by (rule IsValid_short) simp_all
  from unrecognized_driver_no_write [OF d, of "\<lparr>Key = ''k'', Value = [1]\<rparr>" sql_table ?a
      "''jira''" "''token''" "[1]"] d v
  show ?thesis by simp
qed

lemma Get_Data:
  "Err (fst (Get drv ps key)) = None \<Longrightarrow>
   \<exists>kv. Data (fst (Get drv ps key)) = Some (DataKV kv)"
  by (auto simp: Get_def store_err_def store_ok_def split: prod.splits sum.splits if_splits)

lemma GetPluginKey_result:
  assumes "getKeyHash pluginId key = Inr h"
    and "db_SelectOne drv (database (Store a)) (SelectWherePKey h) = (r, db')"
  shows "fst (GetPluginKey drv a pluginId key) =
     (case r of
        Inl err \<Rightarrow>
          if err = ErrNoRows then (None, None)
          else (None, Some (NewAppError ''SqlPluginStore.Get''
                  ''store.sql_plugin_store.get.app_error'' [] (key_err_detail h err)
                  StatusInternalServerError))
      | Inr kv \<Rightarrow> (Some (Value kv), None))"
  using assms
  by (simp add: GetPluginKey_def Get_def conn_SelectOne_def store_err_def store_ok_def
      NewAppError_def StatusNotFound_def StatusInternalServerError_def split: sum.splits)

lemma DeletePluginKey_result:
  assumes "getKeyHash pluginId key = Inr h"
    and "db_Exec drv (database (Store a)) (DeleteWherePKey h) = (r, db')"
  shows "fst (DeletePluginKey drv a pluginId key) =
     (case r of
        Some err \<Rightarrow> Some (NewAppError ''SqlPluginStore.Delete''
                  ''store.sql_plugin_store.delete.app_error'' [] (key_err_detail h err)
                  StatusInternalServerError)
      | None \<Rightarrow> None)"
    and "database (Store (snd (DeletePluginKey drv a pluginId key))) = db'"
  using assms
  by (simp_all add: DeletePluginKey_def Delete_def conn_Exec_def store_err_def store_ok_def
      l4g_def split: option.splits)

text \<open>
  C7, as stated, fails: the pair \<open>(ab, c)\<close> has never been set and Get reports it as not
  found; after Set of the pair \<open>(a, bc)\<close>, which has the same hashed key, Get of \<open>(ab, c)\<close>
  returns the value stored for \<open>(a, bc)\<close>.
\<close>

theorem never_set_pair_found:
  "fst (GetPluginKey sql_table (fresh_app DATABASE_DRIVER_POSTGRES) ''ab'' ''c'') =
     (None, None) \<and>
   fst (SetPluginKey sql_table (fresh_app DATABASE_DRIVER_POSTGRES) ''a'' ''bc'' [1]) = None \<and>
   fst (GetPluginKey sql_table
          (snd (SetPluginKey sql_table (fresh_app DATABASE_DRIVER_POSTGRES) ''a'' ''bc'' [1]))
          ''ab'' ''c'') = (Some [1], None)"
  by code_simp

text \<open>
  C7 (amended): for non-empty components with hashed key \<open>h\<close>: when the select reports no
  rows, Get returns a nil value and no error; any other failure of the select is
  returned as an error (status 500). Delete returns no error whenever the delete
  statement runs without failure, and an error (status 500) when it fails. On the
  reference table, when no row is stored under \<open>h\<close> (no pair with this hashed key has
  been set, or the row has been deleted), Get returns nil without error and Delete
  succeeds, and Get after Delete finds nothing.
\<close>

theorem absent_key_not_an_error:
  assumes hash: "getKeyHash pluginId key = Inr h"
  shows
    "(fst (db_SelectOne drv (database (Store a)) (SelectWherePKey h)) = Inl ErrNoRows \<longrightarrow>
        fst (GetPluginKey drv a pluginId key) = (None, None)) \<and>
     (\<forall>err. fst (db_SelectOne drv (database (Store a)) (SelectWherePKey h)) = Inl err \<and>
            err \<noteq> ErrNoRows \<longrightarrow>
        (\<exists>e. fst (GetPluginKey drv a pluginId key) = (None, Some e) \<and>
             StatusCode e = StatusInternalServerError)) \<and>
     (fst (db_Exec drv (database (Store a)) (DeleteWherePKey h)) = None \<longrightarrow>
        fst (DeletePluginKey drv a pluginId key) = None) \<and>
     (\<forall>err. fst (db_Exec drv (database (Store a)) (DeleteWherePKey h)) = Some err \<longrightarrow>
        (\<exists>e. fst (DeletePluginKey drv a pluginId key) = Some e \<and>
             StatusCode e = StatusInternalServerError)) \<and>
     (\<forall>t. database (Store t) h = None \<longrightarrow>
        fst (GetPluginKey sql_table t pluginId key) = (None, None) \<and>
        fst (DeletePluginKey sql_table t pluginId key) = None) \<and>
     (\<forall>t. fst (DeletePluginKey sql_table t pluginId key) = None \<and>
         fst (GetPluginKey sql_table (snd (DeletePluginKey sql_table t pluginId key))
                pluginId key) = (None, None))"
proof -
  obtain r db' where sel: "db_SelectOne drv (database (Store a)) (SelectWherePKey h) = (r, db')"
    by (cases "db_SelectOne drv (database (Store a)) (SelectWherePKey h)") blast
  obtain d db'' where del: "db_Exec drv (database (Store a)) (DeleteWherePKey h) = (d, db'')"
    by (cases "db_Exec drv (database (Store a)) (DeleteWherePKey h)") blast
  have get: "fst (GetPluginKey drv a pluginId key) = (None, None)" if "r = Inl ErrNoRows"
    using GetPluginKey_result [OF hash sel] that by simp
  have get_err: "\<exists>e. fst (GetPluginKey drv a pluginId key) = (None, Some e) \<and>
      StatusCode e = StatusInternalServerError" if "r = Inl err" "err \<noteq> ErrNoRows" for err
    using GetPluginKey_result [OF hash sel] that by (simp add: NewAppError_def)
  have delete: "fst (DeletePluginKey drv a pluginId key) = None" if "d = None"
    using DeletePluginKey_result(1) [OF hash del] that by simp
  have delete_err: "\<exists>e. fst (DeletePluginKey drv a pluginId key) = Some e \<and>
      StatusCode e = StatusInternalServerError" if "d = Some err" for err
    using DeletePluginKey_result(1) [OF hash del] that by (simp add: NewAppError_def)
  have tab_get: "fst (GetPluginKey sql_table t pluginId key) = (None, None)"
    if "database (Store t) h = None" for t :: "kv_table App"
    using GetPluginKey_result [OF hash, of sql_table t "Inl ErrNoRows" "database (Store t)"] that
    by (simp add: sql_table_def)
  have tab_del: "fst (DeletePluginKey sql_table t pluginId key) = None"
      "database (Store (snd (DeletePluginKey sql_table t pluginId key))) h = None"
    for t :: "kv_table App"
    using DeletePluginKey_result [OF hash, of sql_table t None "(database (Store t))(h := None)"]
    by (simp_all add: sql_table_def)
  show ?thesis
    using get get_err delete delete_err tab_get tab_del sel del by simp
qed


theorem absent_key_not_an_error_witness:
  "getKeyHash ''jira'' ''token'' = Inr ''7V8v4ykF+nrA9HyYyYowXg=='' \<and>
   fst (GetPluginKey sql_table (fresh_app DATABASE_DRIVER_POSTGRES) ''jira'' ''token'') =
     (None, None) \<and>
   (\<exists>e. fst (GetPluginKey (broken_db ''down'') (fresh_app DATABASE_DRIVER_POSTGRES)
               ''jira'' ''token'') = (None, Some e) \<and>
        StatusCode e = StatusInternalServerError) \<and>
   fst (DeletePluginKey sql_table (fresh_app DATABASE_DRIVER_POSTGRES) ''jira'' ''token'') =
     None \<and>
   (\<exists>e. fst (DeletePluginKey (broken_db ''down'') (fresh_app DATABASE_DRIVER_POSTGRES)
               ''jira'' ''token'') = Some e \<and>
        StatusCode e = StatusInternalServerError)"
proof -
  let ?a = "fresh_app DATABASE_DRIVER_POSTGRES"
  have hash: "getKeyHash ''jira'' ''token'' = Inr ''7V8v4ykF+nrA9HyYyYowXg==''"
    by code_simp
  from absent_key_not_an_error [OF hash, of sql_table ?a]
    absent_key_not_an_error [OF hash, of "broken_db ''down''" ?a] hash
  show ?thesis
    by (simp add: sql_table_def broken_db_def fresh_app_def)
qed


section \<open>Properties of the reconciler\<close>

lemma App_PluginEnv_same: "PluginEnv a = v \<Longrightarrow> a\<lparr>PluginEnv := v\<rparr> = a"
  by (cases a) simp

lemma Env_active_same: "activePlugins env = s \<Longrightarrow> env\<lparr>activePlugins := s\<rparr> = env"
  by (cases env) simp

lemma Plugins_Inr: "bundles env = Inr ps \<Longrightarrow> Plugins env = Inr ps"
  by (simp add: Plugins_def)

lemma activate_one_matching:
  assumes "PluginEnv a = Some env"
    and "pluginState_Enable (Config a) (ManifestId (Manifest p)) \<longleftrightarrow>
         ManifestId (Manifest p) \<in> activePlugins env"
  shows "activate_one p a = a"
  using assms by (auto simp: activate_one_def Let_def IsPluginActive_def)

lemma activate_one_activates:
  assumes "PluginEnv a = Some env" and "bundles env = Inr ps" and "p \<in> set ps"
    and "pluginState_Enable (Config a) (ManifestId (Manifest p))"
    and "ManifestId (Manifest p) \<notin> activePlugins env"
    and "OnActivate env (ManifestId (Manifest p)) = None"
  shows "activate_one p a =
     a\<lparr>PluginEnv := Some (env\<lparr>activePlugins := insert (ManifestId (Manifest p)) (activePlugins env)\<rparr>),
       Published := Published a @ (if HasClient (Manifest p) then [activated_message (Manifest p)] else []),
       Log := Log a @ [l4g_Info (''Activated '' @ ManifestId (Manifest p) @ '' plugin'')]\<rparr>"
  using assms
  by (simp add: activate_one_def Let_def IsPluginActive_def ActivatePlugin_def Plugins_Inr
      l4g_def Publish_def)

lemma activate_one_activation_fails:
  assumes "PluginEnv a = Some env" and "bundles env = Inr ps" and "p \<in> set ps"
    and "pluginState_Enable (Config a) (ManifestId (Manifest p))"
    and "ManifestId (Manifest p) \<notin> activePlugins env"
    and "OnActivate env (ManifestId (Manifest p)) = Some msg"
  shows "activate_one p a =
     a\<lparr>Log := Log a @ [l4g_Error (env_error_text (ActivationError (ManifestId (Manifest p)) msg))]\<rparr>"
  using assms
  by (simp add: activate_one_def Let_def IsPluginActive_def ActivatePlugin_def Plugins_Inr
      l4g_def App_PluginEnv_same)

lemma activate_one_deactivates:
  assumes "PluginEnv a = Some env"
    and "\<not> pluginState_Enable (Config a) (ManifestId (Manifest p))"
    and "ManifestId (Manifest p) \<in> activePlugins env"
    and "OnDeactivate env (ManifestId (Manifest p)) = None"
  shows "activate_one p a =
     a\<lparr>PluginEnv := Some (env\<lparr>activePlugins := activePlugins env - {ManifestId (Manifest p)}\<rparr>),
       Published := Published a @ (if HasClient (Manifest p) then [deactivated_message (Manifest p)] else []),
       Log := Log a @ [l4g_Info (''Deactivated '' @ ManifestId (Manifest p) @ '' plugin'')]\<rparr>"
  using assms
  by (simp add: activate_one_def Let_def IsPluginActive_def DeactivatePlugin_def
      l4g_def Publish_def)

lemma activate_one_deactivation_fails:
  assumes "PluginEnv a = Some env"
    and "\<not> pluginState_Enable (Config a) (ManifestId (Manifest p))"
    and "ManifestId (Manifest p) \<in> activePlugins env"
    and "OnDeactivate env (ManifestId (Manifest p)) = Some msg"
  shows "activate_one p a =
     a\<lparr>Log := Log a @ [l4g_Error (env_error_text (DeactivationError (ManifestId (Manifest p)) msg))]\<rparr>"
  using assms
  by (simp add: activate_one_def Let_def IsPluginActive_def DeactivatePlugin_def
      l4g_def App_PluginEnv_same)

text \<open>The five cases of the loop body, as one case distinction.\<close>

lemma activate_one_cases:
  assumes env: "PluginEnv a = Some env" and ps: "bundles env = Inr ps" and p: "p \<in> set ps"
  obtains
    (matching) "pluginState_Enable (Config a) (ManifestId (Manifest p)) \<longleftrightarrow>
                ManifestId (Manifest p) \<in> activePlugins env"
      "activate_one p a = a"
  | (activated) "pluginState_Enable (Config a) (ManifestId (Manifest p))"
      "ManifestId (Manifest p) \<notin> activePlugins env"
      "OnActivate env (ManifestId (Manifest p)) = None"
      "activate_one p a =
         a\<lparr>PluginEnv := Some (env\<lparr>activePlugins := insert (ManifestId (Manifest p)) (activePlugins env)\<rparr>),
           Published := Published a @ (if HasClient (Manifest p) then [activated_message (Manifest p)] else []),
           Log := Log a @ [l4g_Info (''Activated '' @ ManifestId (Manifest p) @ '' plugin'')]\<rparr>"
  | (activation_failed) msg where "pluginState_Enable (Config a) (ManifestId (Manifest p))"
      "ManifestId (Manifest p) \<notin> activePlugins env"
      "OnActivate env (ManifestId (Manifest p)) = Some msg"
      "activate_one p a =
         a\<lparr>Log := Log a @ [l4g_Error (env_error_text (ActivationError (ManifestId (Manifest p)) msg))]\<rparr>"
  | (deactivated) "\<not> pluginState_Enable (Config a) (ManifestId (Manifest p))"
      "ManifestId (Manifest p) \<in> activePlugins env"
      "OnDeactivate env (ManifestId (Manifest p)) = None"
      "activate_one p a =
         a\<lparr>PluginEnv := Some (env\<lparr>activePlugins := activePlugins env - {ManifestId (Manifest p)}\<rparr>),
           Published := Published a @ (if HasClient (Manifest p) then [deactivated_message (Manifest p)] else []),
           Log := Log a @ [l4g_Info (''Deactivated '' @ ManifestId (Manifest p) @ '' plugin'')]\<rparr>"
  | (deactivation_failed) msg where "\<not> pluginState_Enable (Config a) (ManifestId (Manifest p))"
      "ManifestId (Manifest p) \<in> activePlugins env"
      "OnDeactivate env (ManifestId (Manifest p)) = Some msg"
      "activate_one p a =
         a\<lparr>Log := Log a @ [l4g_Error (env_error_text (DeactivationError (ManifestId (Manifest p)) msg))]\<rparr>"
proof -
  let ?i = "ManifestId (Manifest p)"
  consider "pluginState_Enable (Config a) ?i \<longleftrightarrow> ?i \<in> activePlugins env"
    | "pluginState_Enable (Config a) ?i" "?i \<notin> activePlugins env" "OnActivate env ?i = None"
    | msg where "pluginState_Enable (Config a) ?i" "?i \<notin> activePlugins env"
        "OnActivate env ?i = Some msg"
    | "\<not> pluginState_Enable (Config a) ?i" "?i \<in> activePlugins env" "OnDeactivate env ?i = None"
    | msg where "\<not> pluginState_Enable (Config a) ?i" "?i \<in> activePlugins env"
        "OnDeactivate env ?i = Some msg"
    by (cases "OnActivate env ?i"; cases "OnDeactivate env ?i") auto
  then show thesis
  proof cases
    case 1
    then show ?thesis using matching activate_one_matching [OF env] by blast
  next
    case 2
    then show ?thesis using activated activate_one_activates [OF env ps p] by blast
  next
    case 3
    then show ?thesis using activation_failed activate_one_activation_fails [OF env ps p] by blast
  next
    case 4
    then show ?thesis using deactivated activate_one_deactivates [OF env] by blast
  next
    case 5
    then show ?thesis using deactivation_failed activate_one_deactivation_fails [OF env] by blast
  qed
qed

lemma reconciled_Nil: "reconciled cfg env [] = activePlugins env"
  by (simp add: reconciled_def)

lemma reconciled_Cons:
  assumes "activePlugins env1 = reconciled cfg env [q]"
    and "OnActivate env1 = OnActivate env" and "OnDeactivate env1 = OnDeactivate env"
  shows "reconciled cfg env1 qs = reconciled cfg env (q # qs)"
  using assms by (auto simp: reconciled_def)

text \<open>One step of the loop changes the environment's active set as \<open>reconciled\<close> says,
  and nothing else of the environment or the configuration.\<close>

lemma activate_one_env:
  assumes env: "PluginEnv a = Some env" and ps: "bundles env = Inr ps" and p: "p \<in> set ps"
  shows "PluginEnv (activate_one p a) =
           Some (env\<lparr>activePlugins := reconciled (Config a) env [p]\<rparr>)"
    and "Config (activate_one p a) = Config a"
    and "Store (activate_one p a) = Store a"
    and "GetSession (activate_one p a) = GetSession a"
proof -
  have "PluginEnv (activate_one p a) =
           Some (env\<lparr>activePlugins := reconciled (Config a) env [p]\<rparr>) \<and>
        Config (activate_one p a) = Config a \<and> Store (activate_one p a) = Store a \<and>
        GetSession (activate_one p a) = GetSession a"
    using env ps p
  proof (cases rule: activate_one_cases)
    case matching
    then have "reconciled (Config a) env [p] = activePlugins env"
      by (auto simp: reconciled_def)
    with matching env show ?thesis by (simp add: Env_active_same)
  next
    case activated
    then have "reconciled (Config a) env [p] = insert (ManifestId (Manifest p)) (activePlugins env)"
      by (auto simp: reconciled_def)
    with activated show ?thesis by simp
  next
    case (activation_failed msg)
    then have "reconciled (Config a) env [p] = activePlugins env"
      by (auto simp: reconciled_def)
    with activation_failed env show ?thesis by (simp add: Env_active_same)
  next
    case deactivated
    then have "reconciled (Config a) env [p] = activePlugins env - {ManifestId (Manifest p)}"
      by (auto simp: reconciled_def)
    with deactivated show ?thesis by simp
  next
    case (deactivation_failed msg)
    then have "reconciled (Config a) env [p] = activePlugins env"
      by (auto simp: reconciled_def)
    with deactivation_failed env show ?thesis by (simp add: Env_active_same)
  qed
  then show "PluginEnv (activate_one p a) =
           Some (env\<lparr>activePlugins := reconciled (Config a) env [p]\<rparr>)"
    and "Config (activate_one p a) = Config a"
    and "Store (activate_one p a) = Store a"
    and "GetSession (activate_one p a) = GetSession a"
    by simp_all
qed

lemma fold_activate_one_env:
  assumes "PluginEnv a = Some env" and "bundles env = Inr ps" and "set qs \<subseteq> set ps"
  shows "PluginEnv (fold activate_one qs a) =
           Some (env\<lparr>activePlugins := reconciled (Config a) env qs\<rparr>) \<and>
         Config (fold activate_one qs a) = Config a \<and>
         Store (fold activate_one qs a) = Store a \<and>
         GetSession (fold activate_one qs a) = GetSession a"
  using assms
proof (induction qs arbitrary: a env)
  case Nil
  then show ?case by (simp add: reconciled_Nil Env_active_same)
next
  case (Cons q qs)
  let ?a1 = "activate_one q a"
  let ?env1 = "env\<lparr>activePlugins := reconciled (Config a) env [q]\<rparr>"
  have q: "q \<in> set ps" and qs: "set qs \<subseteq> set ps"
    using Cons.prems(3) by simp_all
  note step = activate_one_env [OF Cons.prems(1,2) q]
  have b1: "bundles ?env1 = Inr ps"
    using Cons.prems(2) by simp
  have r: "reconciled (Config a) ?env1 qs = reconciled (Config a) env (q # qs)"
    by (rule reconciled_Cons) simp_all
  from Cons.IH [OF step(1) b1 qs] step(2,3,4) r
  show ?case by simp
qed



lemma Log_activate_one: "\<exists>lg. Log (activate_one p a) = Log a @ lg"
  by (auto simp: activate_one_def Let_def l4g_def Publish_def split: option.splits prod.splits)

lemma Log_fold_activate_one: "\<exists>lg. Log (fold activate_one qs a) = Log a @ lg"
proof (induction qs arbitrary: a)
  case Nil
  then show ?case by simp
next
  case (Cons q qs)
  obtain l1 where l1: "Log (activate_one q a) = Log a @ l1"
    using Log_activate_one by blast
  obtain l2 where "Log (fold activate_one qs (activate_one q a)) = Log (activate_one q a) @ l2"
    using Cons.IH by blast
  with l1 show ?case by simp
qed

lemma fold_activate_one_noop:
  assumes "PluginEnv a = Some env"
    and "\<forall>q \<in> set qs. pluginState_Enable (Config a) (ManifestId (Manifest q)) \<longleftrightarrow>
           ManifestId (Manifest q) \<in> activePlugins env"
  shows "fold activate_one qs a = a"
  using assms
proof (induction qs)
  case Nil
  then show ?case by simp
next
  case (Cons q qs)
  have "activate_one q a = a"
    using Cons.prems by (intro activate_one_matching) auto
  with Cons show ?case by simp
qed

lemma hooks_succeed_Cons:
  assumes "hooks_succeed cfg env (q # qs)"
    and "ManifestId (Manifest q) \<notin> set (map (\<lambda>b. ManifestId (Manifest b)) qs)"
    and "activePlugins env1 = reconciled cfg env [q]"
    and "OnActivate env1 = OnActivate env" and "OnDeactivate env1 = OnDeactivate env"
  shows "hooks_succeed cfg env1 qs"
  using assms by (auto simp: hooks_succeed_def reconciled_def)

lemma notification_cong:
  assumes "ManifestId (Manifest r) \<in> act1 \<longleftrightarrow> ManifestId (Manifest r) \<in> act"
  shows "notification cfg act1 r = notification cfg act r"
  using assms by (simp add: notification_def Let_def)

lemma activate_one_published:
  assumes env: "PluginEnv a = Some env" and ps: "bundles env = Inr ps" and p: "p \<in> set ps"
  shows "\<exists>evs. Published (activate_one p a) = Published a @ evs \<and>
     (\<forall>e \<in> set evs.
        (e = activated_message (Manifest p) \<and>
         pluginState_Enable (Config a) (ManifestId (Manifest p)) \<and>
         OnActivate env (ManifestId (Manifest p)) = None) \<or>
        (e = deactivated_message (Manifest p) \<and>
         \<not> pluginState_Enable (Config a) (ManifestId (Manifest p)) \<and>
         OnDeactivate env (ManifestId (Manifest p)) = None)) \<and>
     (hooks_succeed (Config a) env [p] \<longrightarrow>
        evs = notification (Config a) (activePlugins env) p)"
  using env ps p
proof (cases rule: activate_one_cases)
  case matching
  then show ?thesis
    by (intro exI [of _ "[]"]) (auto simp: notification_def)
next
  case activated
  then show ?thesis
    by (intro exI [of _ "if HasClient (Manifest p) then [activated_message (Manifest p)] else []"])
       (auto simp: notification_def)
next
  case (activation_failed msg)
  then show ?thesis
    by (intro exI [of _ "[]"]) (auto simp: hooks_succeed_def)
next
  case deactivated
  then show ?thesis
    by (intro exI [of _ "if HasClient (Manifest p) then [deactivated_message (Manifest p)] else []"])
       (auto simp: notification_def)
next
  case (deactivation_failed msg)
  then show ?thesis
    by (intro exI [of _ "[]"]) (auto simp: hooks_succeed_def)
qed



lemma fold_published_general:
  assumes "PluginEnv a = Some env" and "bundles env = Inr ps" and "set qs \<subseteq> set ps"
  shows "\<exists>evs. Published (fold activate_one qs a) = Published a @ evs \<and>
     (\<forall>e \<in> set evs. \<exists>p \<in> set qs.
        (e = activated_message (Manifest p) \<and>
         pluginState_Enable (Config a) (ManifestId (Manifest p)) \<and>
         OnActivate env (ManifestId (Manifest p)) = None) \<or>
        (e = deactivated_message (Manifest p) \<and>
         \<not> pluginState_Enable (Config a) (ManifestId (Manifest p)) \<and>
         OnDeactivate env (ManifestId (Manifest p)) = None))"
  using assms
proof (induction qs arbitrary: a env)
  case Nil
  then show ?case by simp
next
  case (Cons q qs)
  let ?a1 = "activate_one q a"
  let ?env1 = "env\<lparr>activePlugins := reconciled (Config a) env [q]\<rparr>"
  have q: "q \<in> set ps" and qs: "set qs \<subseteq> set ps"
    using Cons.prems(3) by simp_all
  note step = activate_one_env [OF Cons.prems(1,2) q]
  have b1: "bundles ?env1 = Inr ps"
    using Cons.prems(2) by simp
  obtain ev1 where ev1: "Published ?a1 = Published a @ ev1"
    and ok1: "\<forall>e \<in> set ev1.
        (e = activated_message (Manifest q) \<and>
         pluginState_Enable (Config a) (ManifestId (Manifest q)) \<and>
         OnActivate env (ManifestId (Manifest q)) = None) \<or>
        (e = deactivated_message (Manifest q) \<and>
         \<not> pluginState_Enable (Config a) (ManifestId (Manifest q)) \<and>
         OnDeactivate env (ManifestId (Manifest q)) = None)"
    using activate_one_published [OF Cons.prems(1,2) q] by blast
  obtain ev2 where ev2: "Published (fold activate_one qs ?a1) = Published ?a1 @ ev2"
    and ok2: "\<forall>e \<in> set ev2. \<exists>p \<in> set qs.
        (e = activated_message (Manifest p) \<and>
         pluginState_Enable (Config ?a1) (ManifestId (Manifest p)) \<and>
         OnActivate ?env1 (ManifestId (Manifest p)) = None) \<or>
        (e = deactivated_message (Manifest p) \<and>
         \<not> pluginState_Enable (Config ?a1) (ManifestId (Manifest p)) \<and>
         OnDeactivate ?env1 (ManifestId (Manifest p)) = None)"
    using Cons.IH [OF step(1) b1 qs] by blast
  have "Published (fold activate_one (q # qs) a) = Published a @ (ev1 @ ev2)"
    using ev1 ev2 by simp
  moreover have "\<forall>e \<in> set (ev1 @ ev2). \<exists>p \<in> set (q # qs).
        (e = activated_message (Manifest p) \<and>
         pluginState_Enable (Config a) (ManifestId (Manifest p)) \<and>
         OnActivate env (ManifestId (Manifest p)) = None) \<or>
        (e = deactivated_message (Manifest p) \<and>
         \<not> pluginState_Enable (Config a) (ManifestId (Manifest p)) \<and>
         OnDeactivate env (ManifestId (Manifest p)) = None)"
    using ok1 ok2 step(2) by (simp add: ball_Un) blast
  ultimately show ?case by blast
qed

lemma fold_published_exact:
  assumes "PluginEnv a = Some env" and "bundles env = Inr ps" and "set qs \<subseteq> set ps"
    and "hooks_succeed (Config a) env qs"
    and "distinct (map (\<lambda>b. ManifestId (Manifest b)) qs)"
  shows "Published (fold activate_one qs a) =
           Published a @ concat (map (notification (Config a) (activePlugins env)) qs)"
  using assms
proof (induction qs arbitrary: a env)
  case Nil
  then show ?case by simp
next
  case (Cons q qs)
  let ?a1 = "activate_one q a"
  let ?env1 = "env\<lparr>activePlugins := reconciled (Config a) env [q]\<rparr>"
  have q: "q \<in> set ps" and qs: "set qs \<subseteq> set ps"
    using Cons.prems(3) by simp_all
  have fresh: "ManifestId (Manifest q) \<notin> set (map (\<lambda>b. ManifestId (Manifest b)) qs)"
    and dist: "distinct (map (\<lambda>b. ManifestId (Manifest b)) qs)"
    using Cons.prems(5) by simp_all
  note step = activate_one_env [OF Cons.prems(1,2) q]
  have b1: "bundles ?env1 = Inr ps"
    using Cons.prems(2) by simp
  have h1: "hooks_succeed (Config a) env [q]"
    using Cons.prems(4) by (simp add: hooks_succeed_def)
  have ev1: "Published ?a1 = Published a @ notification (Config a) (activePlugins env) q"
    using activate_one_published [OF Cons.prems(1,2) q] h1 by auto
  have hs: "hooks_succeed (Config ?a1) ?env1 qs"
    using hooks_succeed_Cons [OF Cons.prems(4) fresh, of ?env1] step(2) by simp
  have same: "notification (Config a) (activePlugins ?env1) r =
              notification (Config a) (activePlugins env) r" if "r \<in> set qs" for r
  proof (rule notification_cong)
    have "ManifestId (Manifest r) \<noteq> ManifestId (Manifest q)"
      using that fresh by (metis (no_types, lifting) imageI list.set_map)
    then show "ManifestId (Manifest r) \<in> activePlugins ?env1 \<longleftrightarrow>
               ManifestId (Manifest r) \<in> activePlugins env"
      by (auto simp: reconciled_def)
  qed
  have "map (notification (Config a) (activePlugins ?env1)) qs =
        map (notification (Config a) (activePlugins env)) qs"
    using same by (intro map_cong) simp_all
  with Cons.IH [OF step(1) b1 qs hs dist] ev1 step(2)
  show ?case by (simp del: map_eq_conv)
qed

lemma fold_activation_failure_logged:
  assumes "PluginEnv a = Some env" and "bundles env = Inr ps" and "set qs \<subseteq> set ps"
    and "p \<in> set qs"
    and "pluginState_Enable (Config a) (ManifestId (Manifest p))"
    and "ManifestId (Manifest p) \<notin> activePlugins env"
    and "OnActivate env (ManifestId (Manifest p)) = Some msg"
  shows "l4g_Error (env_error_text (ActivationError (ManifestId (Manifest p)) msg))
           \<in> set (Log (fold activate_one qs a))"
  using assms
proof (induction qs arbitrary: a env)
  case Nil
  then show ?case by simp
next
  case (Cons q qs)
  let ?a1 = "activate_one q a"
  let ?env1 = "env\<lparr>activePlugins := reconciled (Config a) env [q]\<rparr>"
  have q: "q \<in> set ps" and qs: "set qs \<subseteq> set ps"
    using Cons.prems(3) by simp_all
  note step = activate_one_env [OF Cons.prems(1,2) q]
  have b1: "bundles ?env1 = Inr ps"
    using Cons.prems(2) by simp
  show ?case
  proof (cases "ManifestId (Manifest q) = ManifestId (Manifest p)")
    case True
    have "activate_one q a =
       a\<lparr>Log := Log a @ [l4g_Error (env_error_text (ActivationError (ManifestId (Manifest q)) msg))]\<rparr>"
      using Cons.prems(5,6,7) True
      by (intro activate_one_activation_fails [OF Cons.prems(1,2) q]) simp_all
    then have "l4g_Error (env_error_text (ActivationError (ManifestId (Manifest p)) msg))
        \<in> set (Log ?a1)"
      using True by simp
    moreover obtain lg where "Log (fold activate_one qs ?a1) = Log ?a1 @ lg"
      using Log_fold_activate_one by blast
    ultimately show ?thesis by simp
  next
    case False
    then have "p \<in> set qs"
      using Cons.prems(4) by auto
    moreover have "ManifestId (Manifest p) \<notin> activePlugins ?env1"
      using Cons.prems(6) False by (auto simp: reconciled_def)
    ultimately have "l4g_Error (env_error_text (ActivationError (ManifestId (Manifest p)) msg))
        \<in> set (Log (fold activate_one qs ?a1))"
      using Cons.IH [OF step(1) b1 qs] Cons.prems(5,7) step(2) by simp
    then show ?thesis by simp
  qed
qed

lemma fold_deactivation_failure_logged:
  assumes "PluginEnv a = Some env" and "bundles env = Inr ps" and "set qs \<subseteq> set ps"
    and "p \<in> set qs"
    and "\<not> pluginState_Enable (Config a) (ManifestId (Manifest p))"
    and "ManifestId (Manifest p) \<in> activePlugins env"
    and "OnDeactivate env (ManifestId (Manifest p)) = Some msg"
  shows "l4g_Error (env_error_text (DeactivationError (ManifestId (Manifest p)) msg))
           \<in> set (Log (fold activate_one qs a))"
  using assms
proof (induction qs arbitrary: a env)
  case Nil
  then show ?case by simp
next
  case (Cons q qs)
  let ?a1 = "activate_one q a"
  let ?env1 = "env\<lparr>activePlugins := reconciled (Config a) env [q]\<rparr>"
  have q: "q \<in> set ps" and qs: "set qs \<subseteq> set ps"
    using Cons.prems(3) by simp_all
  note step = activate_one_env [OF Cons.prems(1,2) q]
  have b1: "bundles ?env1 = Inr ps"
    using Cons.prems(2) by simp
  show ?case
  proof (cases "ManifestId (Manifest q) = ManifestId (Manifest p)")
    case True
    have "activate_one q a =
       a\<lparr>Log := Log a @ [l4g_Error (env_error_text (DeactivationError (ManifestId (Manifest q)) msg))]\<rparr>"
      using Cons.prems(5,6,7) True
      by (intro activate_one_deactivation_fails [OF Cons.prems(1)]) simp_all
    then have "l4g_Error (env_error_text (DeactivationError (ManifestId (Manifest p)) msg))
        \<in> set (Log ?a1)"
      using True by simp
    moreover obtain lg where "Log (fold activate_one qs ?a1) = Log ?a1 @ lg"
      using Log_fold_activate_one by blast
    ultimately show ?thesis by simp
  next
    case False
    then have "p \<in> set qs"
      using Cons.prems(4) by auto
    moreover have "ManifestId (Manifest p) \<in> activePlugins ?env1"
      using Cons.prems(6) False by (auto simp: reconciled_def)
    ultimately have "l4g_Error (env_error_text (DeactivationError (ManifestId (Manifest p)) msg))
        \<in> set (Log (fold activate_one qs ?a1))"
      using Cons.IH [OF step(1) b1 qs] Cons.prems(5,7) step(2) by simp
    then show ?thesis by simp
  qed
qed


text \<open>
  C1, as stated, fails: with \<open>jira\<close> installed, enabled and inactive, and its startup
  failing, a pass leaves \<open>jira\<close> inactive; the active set after the pass is empty, not
  the set of enabled plugins.
\<close>


theorem reconcile_activation_failure:
  "map_option bundles (PluginEnv (sample_app [''jira''])) = Some (Inr [jira_bundle, zoom_bundle]) \<and>
   pluginState_Enable (Config (sample_app [''jira''])) ''jira'' \<and>
   \<not> pluginState_Enable (Config (sample_app [''jira''])) ''zoom'' \<and>
   map_option activePlugins (PluginEnv (sample_app [''jira''])) = Some {''zoom''} \<and>
   map_option activePlugins (PluginEnv (ActivatePlugins (sample_app [''jira'']))) = Some {}"
  by code_simp

text \<open>
  C1 (amended): when the environment is initialised, its enumeration of the installed
  bundles succeeds, and every startup and shutdown the pass has to run succeeds, then
  after one run of \<open>ActivatePlugins\<close> an installed plugin is active exactly when its
  state flag is enabled (a plugin with no state entry is inactive), identifiers that are
  not installed keep their state, the messages published are, in the order of the
  bundles (with distinct identifiers), one \<open>activated\<close> or \<open>deactivated\<close> message for each
  bundle whose state changed and that has a client component, and a second run
  changes nothing: no state, no message, no log line.
\<close>

theorem reconcile_without_failures:
  assumes env: "PluginEnv a = Some env" and ps: "bundles env = Inr ps"
    and ok: "hooks_succeed (Config a) env ps"
  shows "\<exists>env'. PluginEnv (ActivatePlugins a) = Some env' \<and>
     (\<forall>p \<in> set ps. ManifestId (Manifest p) \<in> activePlugins env' \<longleftrightarrow>
        pluginState_Enable (Config a) (ManifestId (Manifest p))) \<and>
     (\<forall>p \<in> set ps. PluginStates (Config a) (ManifestId (Manifest p)) = None \<longrightarrow>
        ManifestId (Manifest p) \<notin> activePlugins env') \<and>
     (\<forall>i. i \<notin> set (map (\<lambda>b. ManifestId (Manifest b)) ps) \<longrightarrow>
        (i \<in> activePlugins env' \<longleftrightarrow> i \<in> activePlugins env)) \<and>
     (activePlugins env \<subseteq> set (map (\<lambda>b. ManifestId (Manifest b)) ps) \<longrightarrow>
        activePlugins env' =
          {i \<in> set (map (\<lambda>b. ManifestId (Manifest b)) ps). pluginState_Enable (Config a) i}) \<and>
     (distinct (map (\<lambda>b. ManifestId (Manifest b)) ps) \<longrightarrow>
        Published (ActivatePlugins a) =
          Published a @ concat (map (notification (Config a) (activePlugins env)) ps)) \<and>
     ActivatePlugins (ActivatePlugins a) = ActivatePlugins a"
proof -
  let ?env' = "env\<lparr>activePlugins := reconciled (Config a) env ps\<rparr>"
  let ?ids = "set (map (\<lambda>b. ManifestId (Manifest b)) ps)"
  have run: "ActivatePlugins a = fold activate_one ps a"
    using env ps by (simp add: ActivatePlugins_def Plugins_Inr)
  have frame: "PluginEnv (fold activate_one ps a) = Some ?env'"
      "Config (fold activate_one ps a) = Config a"
    using fold_activate_one_env [OF env ps subset_refl] by simp_all
  have inst: "i \<in> reconciled (Config a) env ps \<longleftrightarrow> pluginState_Enable (Config a) i"
    if "i \<in> ?ids" for i
    using that ok by (auto simp: reconciled_def hooks_succeed_def)
  have out: "i \<in> reconciled (Config a) env ps \<longleftrightarrow> i \<in> activePlugins env"
    if "i \<notin> ?ids" for i
    using that by (auto simp: reconciled_def)
  have c1: "\<forall>p \<in> set ps. ManifestId (Manifest p) \<in> activePlugins ?env' \<longleftrightarrow>
        pluginState_Enable (Config a) (ManifestId (Manifest p))"
    using inst by simp
  have c2: "\<forall>p \<in> set ps. PluginStates (Config a) (ManifestId (Manifest p)) = None \<longrightarrow>
        ManifestId (Manifest p) \<notin> activePlugins ?env'"
    using inst by (simp add: pluginState_Enable_def)
  have c3: "\<forall>i. i \<notin> ?ids \<longrightarrow> (i \<in> activePlugins ?env' \<longleftrightarrow> i \<in> activePlugins env)"
    using out by simp
  have c4: "activePlugins env \<subseteq> ?ids \<longrightarrow>
      activePlugins ?env' = {i \<in> ?ids. pluginState_Enable (Config a) i}"
  proof (intro impI set_eqI)
    fix i
    assume sub: "activePlugins env \<subseteq> ?ids"
    show "i \<in> activePlugins ?env' \<longleftrightarrow> i \<in> {i \<in> ?ids. pluginState_Enable (Config a) i}"
      using inst [of i] out [of i] sub by (cases "i \<in> ?ids") auto
  qed
  have c5: "distinct (map (\<lambda>b. ManifestId (Manifest b)) ps) \<longrightarrow>
      Published (ActivatePlugins a) =
        Published a @ concat (map (notification (Config a) (activePlugins env)) ps)"
    using fold_published_exact [OF env ps subset_refl ok] run by simp
  have again: "ActivatePlugins (fold activate_one ps a) = fold activate_one ps a"
  proof -
    have "ActivatePlugins (fold activate_one ps a) =
          fold activate_one ps (fold activate_one ps a)"
      using frame(1) ps by (simp add: ActivatePlugins_def Plugins_Inr)
    also have "\<dots> = fold activate_one ps a"
      using c1 frame(2) by (intro fold_activate_one_noop [OF frame(1)]) simp
    finally show ?thesis .
  qed
  show ?thesis
    using frame(1) c1 c2 c3 c4 c5 again unfolding run by blast
qed



theorem reconcile_without_failures_witness:
  "PluginEnv (sample_app []) = Some (sample_env []) \<and>
   bundles (sample_env []) = Inr [jira_bundle, zoom_bundle] \<and>
   hooks_succeed (Config (sample_app [])) (sample_env []) [jira_bundle, zoom_bundle] \<and>
   (\<exists>env'. PluginEnv (ActivatePlugins (sample_app [])) = Some env' \<and>
           activePlugins env' = {''jira''}) \<and>
   Published (ActivatePlugins (sample_app [])) =
     [activated_message (Manifest jira_bundle), deactivated_message (Manifest zoom_bundle)] \<and>
   ActivatePlugins (ActivatePlugins (sample_app [])) = ActivatePlugins (sample_app [])"
proof -
  let ?a = "sample_app []"
  let ?env = "sample_env []"
  let ?ps = "[jira_bundle, zoom_bundle]"
  have env: "PluginEnv ?a = Some ?env"
    by (simp add: sample_app_def)
  have ps: "bundles ?env = Inr ?ps"
    by (simp add: sample_env_def)
  have cfg: "pluginState_Enable (Config ?a) ''jira''" "\<not> pluginState_Enable (Config ?a) ''zoom''"
    by (simp_all add: sample_app_def pluginState_Enable_def)
  have ids: "ManifestId (Manifest jira_bundle) = ''jira''"
      "ManifestId (Manifest zoom_bundle) = ''zoom''"
      "HasClient (Manifest jira_bundle)" "HasClient (Manifest zoom_bundle)"
    by (simp_all add: jira_bundle_def zoom_bundle_def)
  have act: "activePlugins ?env = {''zoom''}"
    by (simp add: sample_env_def)
  have ok: "hooks_succeed (Config ?a) ?env ?ps"
    by (simp add: hooks_succeed_def ids cfg act) (simp add: sample_env_def)
  have pub0: "Published ?a = []"
    by (simp add: sample_app_def fresh_app_def)
  from reconcile_without_failures [OF env ps ok]
  obtain env' where e: "PluginEnv (ActivatePlugins ?a) = Some env'"
    and a4: "activePlugins ?env \<subseteq> set (map (\<lambda>b. ManifestId (Manifest b)) ?ps) \<longrightarrow>
        activePlugins env' =
          {i \<in> set (map (\<lambda>b. ManifestId (Manifest b)) ?ps). pluginState_Enable (Config ?a) i}"
    and a5: "distinct (map (\<lambda>b. ManifestId (Manifest b)) ?ps) \<longrightarrow>
        Published (ActivatePlugins ?a) =
          Published ?a @ concat (map (notification (Config ?a) (activePlugins ?env)) ?ps)"
    and a6: "ActivatePlugins (ActivatePlugins ?a) = ActivatePlugins ?a"
    by blast
  have "activePlugins env' = {''jira''}"
    using a4 cfg by (auto simp: ids act)
  moreover have "Published (ActivatePlugins ?a) =
     [activated_message (Manifest jira_bundle), deactivated_message (Manifest zoom_bundle)]"
    using a5 by (simp add: ids act notification_def cfg pub0)
  ultimately show ?thesis
    using env ps ok e a6 by simp
qed

lemma event_plugin_messages [simp]:
  "event_plugin (activated_message m) = ManifestId m"
  "event_plugin (deactivated_message m) = ManifestId m"
  by (simp_all add: activated_message_def deactivated_message_def ClientManifest_def)

text \<open>
  C8: when, during a pass over the installed bundles, the startup of an enabled,
  inactive plugin fails, or the shutdown of a disabled, active plugin fails, then after
  the pass that plugin's state is what it was, no message about it has been published,
  the failure is in the log, and every installed plugin whose own startup or shutdown
  does not fail has reached its desired state, whether it comes before or after the
  failing one. \<open>ActivatePlugins\<close> has no error result: it returns the application state.
\<close>

theorem failure_does_not_block:
  assumes env: "PluginEnv a = Some env" and ps: "bundles env = Inr ps" and p: "p \<in> set ps"
    and fails:
      "(pluginState_Enable (Config a) (ManifestId (Manifest p)) \<and>
        ManifestId (Manifest p) \<notin> activePlugins env \<and>
        OnActivate env (ManifestId (Manifest p)) = Some msg) \<or>
       (\<not> pluginState_Enable (Config a) (ManifestId (Manifest p)) \<and>
        ManifestId (Manifest p) \<in> activePlugins env \<and>
        OnDeactivate env (ManifestId (Manifest p)) = Some msg)"
  shows "\<exists>env' evs. PluginEnv (ActivatePlugins a) = Some env' \<and>
     (ManifestId (Manifest p) \<in> activePlugins env' \<longleftrightarrow>
      ManifestId (Manifest p) \<in> activePlugins env) \<and>
     Published (ActivatePlugins a) = Published a @ evs \<and>
     (\<forall>e \<in> set evs. event_plugin e \<noteq> ManifestId (Manifest p)) \<and>
     l4g_Error (env_error_text
        (if pluginState_Enable (Config a) (ManifestId (Manifest p))
         then ActivationError (ManifestId (Manifest p)) msg
         else DeactivationError (ManifestId (Manifest p)) msg)) \<in> set (Log (ActivatePlugins a)) \<and>
     (\<forall>q \<in> set ps.
        (pluginState_Enable (Config a) (ManifestId (Manifest q)) \<and>
           ManifestId (Manifest q) \<notin> activePlugins env \<longrightarrow>
             OnActivate env (ManifestId (Manifest q)) = None) \<and>
        (\<not> pluginState_Enable (Config a) (ManifestId (Manifest q)) \<and>
           ManifestId (Manifest q) \<in> activePlugins env \<longrightarrow>
             OnDeactivate env (ManifestId (Manifest q)) = None) \<longrightarrow>
        (ManifestId (Manifest q) \<in> activePlugins env' \<longleftrightarrow>
         pluginState_Enable (Config a) (ManifestId (Manifest q))))"
proof -
  let ?env' = "env\<lparr>activePlugins := reconciled (Config a) env ps\<rparr>"
  let ?i = "ManifestId (Manifest p)"
  have run: "ActivatePlugins a = fold activate_one ps a"
    using env ps by (simp add: ActivatePlugins_def Plugins_Inr)
  have frame: "PluginEnv (ActivatePlugins a) = Some ?env'"
    using fold_activate_one_env [OF env ps subset_refl] run by simp
  have same: "?i \<in> activePlugins ?env' \<longleftrightarrow> ?i \<in> activePlugins env"
    using fails by (auto simp: reconciled_def)
  obtain evs where evs: "Published (ActivatePlugins a) = Published a @ evs"
    and src: "\<forall>e \<in> set evs. \<exists>q \<in> set ps.
        (e = activated_message (Manifest q) \<and>
         pluginState_Enable (Config a) (ManifestId (Manifest q)) \<and>
         OnActivate env (ManifestId (Manifest q)) = None) \<or>
        (e = deactivated_message (Manifest q) \<and>
         \<not> pluginState_Enable (Config a) (ManifestId (Manifest q)) \<and>
         OnDeactivate env (ManifestId (Manifest q)) = None)"
    using fold_published_general [OF env ps subset_refl] run by auto
  have none: "\<forall>e \<in> set evs. event_plugin e \<noteq> ?i"
  proof
    fix e assume "e \<in> set evs"
    with src have "\<exists>q \<in> set ps.
        (e = activated_message (Manifest q) \<and>
         pluginState_Enable (Config a) (ManifestId (Manifest q)) \<and>
         OnActivate env (ManifestId (Manifest q)) = None) \<or>
        (e = deactivated_message (Manifest q) \<and>
         \<not> pluginState_Enable (Config a) (ManifestId (Manifest q)) \<and>
         OnDeactivate env (ManifestId (Manifest q)) = None)"
      by (rule bspec)
    with fails show "event_plugin e \<noteq> ?i"
      by auto
  qed
  have logged: "l4g_Error (env_error_text
        (if pluginState_Enable (Config a) ?i then ActivationError ?i msg
         else DeactivationError ?i msg)) \<in> set (Log (ActivatePlugins a))"
    using fails fold_activation_failure_logged [OF env ps subset_refl p, of msg]
      fold_deactivation_failure_logged [OF env ps subset_refl p, of msg] run
    by auto
  have others: "\<forall>q \<in> set ps.
        (pluginState_Enable (Config a) (ManifestId (Manifest q)) \<and>
           ManifestId (Manifest q) \<notin> activePlugins env \<longrightarrow>
             OnActivate env (ManifestId (Manifest q)) = None) \<and>
        (\<not> pluginState_Enable (Config a) (ManifestId (Manifest q)) \<and>
           ManifestId (Manifest q) \<in> activePlugins env \<longrightarrow>
             OnDeactivate env (ManifestId (Manifest q)) = None) \<longrightarrow>
        (ManifestId (Manifest q) \<in> activePlugins ?env' \<longleftrightarrow>
         pluginState_Enable (Config a) (ManifestId (Manifest q)))"
    by (auto simp: reconciled_def)
  show ?thesis
    using frame same evs none logged others by blast
qed


theorem failure_does_not_block_witness:
  "PluginEnv (sample_app [''jira'']) = Some (sample_env [''jira'']) \<and>
   bundles (sample_env [''jira'']) = Inr [jira_bundle, zoom_bundle] \<and>
   jira_bundle \<in> set [jira_bundle, zoom_bundle] \<and>
   pluginState_Enable (Config (sample_app [''jira''])) ''jira'' \<and>
   ''jira'' \<notin> activePlugins (sample_env [''jira'']) \<and>
   OnActivate (sample_env [''jira'']) ''jira'' = Some ''startup failed'' \<and>
   (\<exists>env' evs. PluginEnv (ActivatePlugins (sample_app [''jira''])) = Some env' \<and>
      ''jira'' \<notin> activePlugins env' \<and> ''zoom'' \<notin> activePlugins env' \<and>
      Published (ActivatePlugins (sample_app [''jira''])) =
        Published (sample_app [''jira'']) @ evs \<and>
      (\<forall>e \<in> set evs. event_plugin e \<noteq> ''jira'') \<and>
      l4g_Error ''unable to activate plugin jira: startup failed''
        \<in> set (Log (ActivatePlugins (sample_app [''jira'']))))"
proof -
  let ?a = "sample_app [''jira'']"
  let ?env = "sample_env [''jira'']"
  let ?ps = "[jira_bundle, zoom_bundle]"
  have env: "PluginEnv ?a = Some ?env"
    by (simp add: sample_app_def)
  have ps: "bundles ?env = Inr ?ps"
    by (simp add: sample_env_def)
  have p: "jira_bundle \<in> set ?ps"
    by simp
  have cfg: "pluginState_Enable (Config ?a) ''jira''" "\<not> pluginState_Enable (Config ?a) ''zoom''"
    by (simp_all add: sample_app_def pluginState_Enable_def)
  have ids: "ManifestId (Manifest jira_bundle) = ''jira''"
      "ManifestId (Manifest zoom_bundle) = ''zoom''"
    by (simp_all add: jira_bundle_def zoom_bundle_def)
  have act: "activePlugins ?env = {''zoom''}"
    and hooks: "OnActivate ?env ''jira'' = Some ''startup failed''"
      "OnDeactivate ?env ''zoom'' = None"
    by (simp_all add: sample_env_def)
  have fails:
    "(pluginState_Enable (Config ?a) (ManifestId (Manifest jira_bundle)) \<and>
      ManifestId (Manifest jira_bundle) \<notin> activePlugins ?env \<and>
      OnActivate ?env (ManifestId (Manifest jira_bundle)) = Some ''startup failed'') \<or>
     (\<not> pluginState_Enable (Config ?a) (ManifestId (Manifest jira_bundle)) \<and>
      ManifestId (Manifest jira_bundle) \<in> activePlugins ?env \<and>
      OnDeactivate ?env (ManifestId (Manifest jira_bundle)) = Some ''startup failed'')"
    by (simp add: ids cfg act hooks)
  from failure_does_not_block [OF env ps p fails]
  show ?thesis
    using env ps cfg act hooks by (simp add: ids) blast
qed



section \<open>Properties of the request router\<close>

lemma fold_AddCookie: "fold AddCookie cs r = r\<lparr>Cookies := Cookies r @ cs\<rparr>"
  by (induction cs arbitrary: r) (simp_all add: AddCookie_def)

lemma strip_credentials_fields:
  "Header (strip_credentials r) = (Header r)(HEADER_AUTH := None, ''Referer'' := None)"
  "Cookies (strip_credentials r) = filter (\<lambda>c. Name c \<noteq> SESSION_COOKIE_TOKEN) (Cookies r)"
  "Query (strip_credentials r) = (Query r)(''access_token'' := None)"
  "Method (strip_credentials r) = Method r"
  by (simp_all add: strip_credentials_def Let_def fold_AddCookie)

lemma attach_user_fields:
  assumes "attach_user a token r = Some r1"
  shows "Header r1 = (Header r)(''Mattermost-User-Id'' := None)"
    and "Cookies r1 = Cookies r" and "Query r1 = Query r" and "Method r1 = Method r"
  using assms by (auto simp: attach_user_def Let_def split: if_splits sum.splits)

lemma find_filter_None: "find P (filter (\<lambda>c. \<not> P c) cs) = None"
  by (induction cs) simp_all

lemma ServePluginRequest_Forwarded:
  assumes "ServePluginRequest a r = (Forwarded r', a')"
  shows "\<exists>r1. attach_user a (request_token r) r = Some r1 \<and>
              Header r' = Header (strip_credentials r1) \<and>
              Cookies r' = Cookies (strip_credentials r1) \<and>
              Query r' = Query (strip_credentials r1) \<and>
              Method r' = Method (strip_credentials r1)"
  using assms
  by (auto simp: ServePluginRequest_def Let_def split: if_splits option.splits)

text \<open>
  C5: whenever the handler forwards a request to the hooks, the forwarded request has
  no authorization header, its cookies are the cookies of the incoming request other
  than the session cookie, in order, it has no query parameter \<open>access_token\<close>, and the
  handler's own extraction finds no credential in it.
\<close>

theorem forwarded_request_has_no_credentials:
  assumes "ServePluginRequest a r = (Forwarded r', a')"
  shows "Header r' HEADER_AUTH = None \<and>
         request_Cookie r' SESSION_COOKIE_TOKEN = None \<and>
         Cookies r' = filter (\<lambda>c. Name c \<noteq> SESSION_COOKIE_TOKEN) (Cookies r) \<and>
         Query r' ''access_token'' = None \<and>
         request_token r' = []"
proof -
  obtain r1 where r1: "attach_user a (request_token r) r = Some r1"
    and h: "Header r' = Header (strip_credentials r1)"
    and c: "Cookies r' = Cookies (strip_credentials r1)"
    and q: "Query r' = Query (strip_credentials r1)"
    using ServePluginRequest_Forwarded [OF assms] by blast
  note f = attach_user_fields [OF r1]
  have auth: "Header r' HEADER_AUTH = None"
    using h by (simp add: strip_credentials_fields HEADER_AUTH_def)
  have cookies: "Cookies r' = filter (\<lambda>c. Name c \<noteq> SESSION_COOKIE_TOKEN) (Cookies r)"
    using c f(2) by (simp add: strip_credentials_fields)
  have nocookie: "request_Cookie r' SESSION_COOKIE_TOKEN = None"
    using find_filter_None [of "\<lambda>c. Name c = SESSION_COOKIE_TOKEN" "Cookies r"] cookies
    by (simp add: request_Cookie_def)
  have query: "Query r' ''access_token'' = None"
    using q by (simp add: strip_credentials_fields)
  have "request_token r' = []"
    using auth nocookie query
    by (simp add: request_token_def values_Get_def HasPrefix_def
        HEADER_BEARER_def HEADER_TOKEN_def)
  with auth cookies nocookie query show ?thesis by simp
qed

theorem forwarded_request_has_no_credentials_witness:
  "\<exists>r'. fst (ServePluginRequest session_app
            (sample_request [HEADER_AUTH \<mapsto> [''BEARER:secret'']]
               [\<lparr>Name = ''MMAUTHTOKEN'', CookieValue = ''secret''\<rparr>,
                \<lparr>Name = ''lang'', CookieValue = ''en''\<rparr>]
               [''access_token'' \<mapsto> [''secret'']])) = Forwarded r' \<and>
        Header r' HEADER_AUTH = None \<and>
        Cookies r' = [\<lparr>Name = ''lang'', CookieValue = ''en''\<rparr>] \<and>
        Query r' ''access_token'' = None \<and>
        request_token r' = []"
proof -
  let ?r = "sample_request [HEADER_AUTH \<mapsto> [''BEARER:secret'']]
               [\<lparr>Name = ''MMAUTHTOKEN'', CookieValue = ''secret''\<rparr>,
                \<lparr>Name = ''lang'', CookieValue = ''en''\<rparr>]
               [''access_token'' \<mapsto> [''secret'']]"
  have tok: "request_token ?r = ''secret''"
    by code_simp
  have "\<exists>r' a'. ServePluginRequest session_app ?r = (Forwarded r', a')"
    by (simp add: ServePluginRequest_def tok attach_user_def session_app_def sample_app_def
        fresh_app_def Let_def)
  then obtain r' a' where fw: "ServePluginRequest session_app ?r = (Forwarded r', a')"
    by blast
  from forwarded_request_has_no_credentials [OF fw] fw
  show ?thesis
    by (simp add: sample_request_def SESSION_COOKIE_TOKEN_def)
qed

text \<open>
  C4 fails on the code. A request whose credential \<open>secret\<close> resolves to the session of
  user \<open>u1\<close> is forwarded without the header \<open>Mattermost-User-Id\<close>; a request whose
  credential does not resolve is not forwarded: the handler panics.
\<close>

theorem resolved_identity_not_attached:
  "request_token (sample_request Map.empty [] [''access_token'' \<mapsto> [''secret'']]) = ''secret'' \<and>
   GetSession session_app ''secret'' = Inr \<lparr>UserId = ''u1''\<rparr> \<and>
   (case fst (ServePluginRequest session_app
                (sample_request Map.empty [] [''access_token'' \<mapsto> [''secret'']])) of
      Forwarded r' \<Rightarrow> Header r' ''Mattermost-User-Id'' = None
    | _ \<Rightarrow> False) \<and>
   request_token (sample_request Map.empty [] [''access_token'' \<mapsto> [''wrong'']]) = ''wrong'' \<and>
   (case GetSession session_app ''wrong'' of Inl err \<Rightarrow> True | Inr s \<Rightarrow> False) \<and>
   (case fst (ServePluginRequest session_app
                (sample_request Map.empty [] [''access_token'' \<mapsto> [''wrong'']])) of
      Panicked msg \<Rightarrow> True
    | _ \<Rightarrow> False)"
  by code_simp



section \<open>Properties of the installer\<close>

lemma is_under_refl: "is_under d d"
  by (simp add: is_under_def)

lemma is_under_append: "is_under d q \<Longrightarrow> is_under d (q @ r)"
proof -
  assume "is_under d q"
  then have "length d \<le> length q" "take (length d) q = d"
    by (auto simp: is_under_def dest: arg_cong [where f = length])
  then show ?thesis
    by (simp add: is_under_def)
qed

lemma RemoveAll_fs_write: "is_under d p \<Longrightarrow> RemoveAll d (fs_write p n fs) = RemoveAll d fs"
proof (induction fs)
  case Nil
  then show ?case by (simp add: RemoveAll_def)
next
  case (Cons e fs)
  obtain q m where e: "e = (q, m)"
    by (cases e)
  show ?case
    using Cons by (simp add: RemoveAll_def e)
qed

lemma RemoveAll_MkdirAll: "is_under d dst \<Longrightarrow> RemoveAll d (MkdirAll dst cs fs) = RemoveAll d fs"
proof (induction cs arbitrary: dst fs)
  case Nil
  then show ?case by simp
next
  case (Cons c cs)
  have u: "is_under d (dst @ [c])"
    using Cons.prems by (rule is_under_append)
  show ?case
    using Cons.IH [OF u] u by (simp add: Let_def RemoveAll_fs_write)
qed

lemma RemoveAll_ExtractTarGz:
  "RemoveAll dst (snd (ExtractTarGz es dst fs)) = RemoveAll dst fs"
proof (induction es dst fs rule: ExtractTarGz.induct)
  case (4 p c rest dst fs)
  have "is_under dst (dst @ p)"
    by (rule is_under_append [OF is_under_refl])
  with 4 show ?case
    by (simp add: RemoveAll_fs_write RemoveAll_MkdirAll is_under_refl)
qed (simp_all add: RemoveAll_MkdirAll is_under_refl)

text \<open>In a well-formed file system nothing lies below a path that does not exist.\<close>

lemma nothing_under_missing:
  assumes wf: "fs_wf fs" and missing: "d \<notin> set (map fst fs)"
  shows "q \<in> set (map fst fs) \<Longrightarrow> \<not> is_under d q"
proof (induction q rule: rev_induct)
  case Nil
  then show ?case
    using missing by (auto simp: is_under_def)
next
  case (snoc x q)
  have "butlast (q @ [x]) \<in> set (map fst fs)"
    using wf snoc.prems unfolding fs_wf_def by blast
  then have parent: "q \<in> set (map fst fs)"
    by simp
  show ?case
  proof
    assume u: "is_under d (q @ [x])"
    have ne: "d \<noteq> q @ [x]"
      using missing snoc.prems by auto
    have "is_under d q"
    proof (cases "length d \<le> length q")
      case True
      then show ?thesis using u by (simp add: is_under_def)
    next
      case False
      then have "take (length d) (q @ [x]) = q @ [x]"
        by simp
      with u ne show ?thesis
        by (simp add: is_under_def)
    qed
    with snoc.IH [OF parent] show False by simp
  qed
qed

lemma RemoveAll_fresh:
  assumes "fs_wf fs" and "map_of fs d = None"
  shows "RemoveAll d (fs @ [(d, n)]) = fs"
proof -
  have missing: "d \<notin> set (map fst fs)"
    using assms(2) by (simp add: map_of_eq_None_iff)
  have "\<forall>e \<in> set fs. (case e of (q, n) \<Rightarrow> \<not> is_under d q)"
    using nothing_under_missing [OF assms(1) missing] by force
  then have "filter (\<lambda>(q, n). \<not> is_under d q) fs = fs"
    by (simp add: filter_id_conv)
  then show ?thesis
    by (simp add: RemoveAll_def is_under_refl)
qed

lemma TempDir_Inr:
  assumes "TempDir tmpDir fs = Inr fs1"
  shows "fs1 = fs @ [(tmpDir, Dir)]" and "map_of fs tmpDir = None"
  using assms by (auto simp: TempDir_def split: if_splits)

text \<open>
  C6: when the temporary directory is created, the archive is extracted, its manifest
  is found, and an installed bundle has the identifier of that manifest, then
  \<open>InstallPlugin\<close> fails with the duplicate-identifier error (status 400) and the file
  system after the call is the file system before it: nothing was copied into the search
  path, the installed bundles are as they were, and the temporary directory with all
  that was extracted into it is gone.
\<close>

theorem duplicate_id_leaves_filesystem:
  assumes env: "PluginEnv a = Some env" and on: "Enable (Config a)"
    and wf: "fs_wf fs"
    and tmp: "TempDir tmpDir fs = Inr fs1"
    and ex: "ExtractTarGz pluginFile tmpDir fs1 = (None, fs2)"
    and rd: "ReadDir fs2 tmpDir = Inr dir"
    and mf: "FindManifest fs2 (bundle_root tmpDir dir) = Inr manifest"
    and pl: "Plugins env = Inr bs"
    and dup: "b \<in> set bs" "ManifestId (Manifest b) = ManifestId manifest"
  shows "InstallPlugin a tmpDir pluginFile fs =
           (Inl (NewAppError ''InstallPlugin'' ''app.plugin.install_id.app_error'' [] []
                   StatusBadRequest), fs) \<and>
         map_of fs tmpDir = None"
proof -
  let ?err = "NewAppError ''InstallPlugin'' ''app.plugin.install_id.app_error'' [] []
                StatusBadRequest"
  have body: "install_from env tmpDir pluginFile fs1 = (Inl ?err, fs2)"
    using ex rd mf pl dup by (auto simp: install_from_def Let_def)
  have "RemoveAll tmpDir fs2 = RemoveAll tmpDir fs1"
    using RemoveAll_ExtractTarGz [of tmpDir pluginFile fs1] ex by simp
  also have "\<dots> = fs"
    using TempDir_Inr [OF tmp] wf by (simp add: RemoveAll_fresh)
  finally have "RemoveAll tmpDir fs2 = fs" .
  with body env on tmp TempDir_Inr(2) [OF tmp] show ?thesis
    by (simp add: InstallPlugin_def)
qed

theorem duplicate_id_leaves_filesystem_witness:
  "PluginEnv (sample_app []) = Some (sample_env []) \<and> Enable (Config (sample_app [])) \<and>
   fs_wf sample_fs \<and>
   TempDir [''tmp'', ''plugintmp123''] sample_fs =
     Inr (sample_fs @ [([''tmp'', ''plugintmp123''], Dir)]) \<and>
   fst (ExtractTarGz sample_archive [''tmp'', ''plugintmp123'']
          (sample_fs @ [([''tmp'', ''plugintmp123''], Dir)])) = None \<and>
   Plugins (sample_env []) = Inr [jira_bundle, zoom_bundle] \<and>
   InstallPlugin (sample_app []) [''tmp'', ''plugintmp123''] sample_archive sample_fs =
     (Inl (NewAppError ''InstallPlugin'' ''app.plugin.install_id.app_error'' [] []
             StatusBadRequest), sample_fs)"
proof -
  let ?tmp = "[''tmp'', ''plugintmp123'']"
  let ?fs1 = "sample_fs @ [(?tmp, Dir)]"
  let ?fs2 = "snd (ExtractTarGz sample_archive ?tmp ?fs1)"
  let ?dir = "[\<lparr>FileName = ''jira-2'', IsDir = True\<rparr>]"
  let ?m = "\<lparr>ManifestId = ''jira'', Version = ''2.0'', HasClient = False\<rparr>"
  have env: "PluginEnv (sample_app []) = Some (sample_env [])"
    and on: "Enable (Config (sample_app []))"
    by (simp_all add: sample_app_def)
  have wf: "fs_wf sample_fs"
    by code_simp
  have tmp: "TempDir ?tmp sample_fs = Inr ?fs1"
    by code_simp
  have ex0: "fst (ExtractTarGz sample_archive ?tmp ?fs1) = None"
    by code_simp
  then have ex: "ExtractTarGz sample_archive ?tmp ?fs1 = (None, ?fs2)"
    by (simp add: prod_eq_iff)
  have rd: "ReadDir ?fs2 ?tmp = Inr ?dir"
    by code_simp
  have mf: "FindManifest ?fs2 (bundle_root ?tmp ?dir) = Inr ?m"
    by code_simp
  have pl: "Plugins (sample_env []) = Inr [jira_bundle, zoom_bundle]"
    by (simp add: Plugins_def sample_env_def)
  have dup: "jira_bundle \<in> set [jira_bundle, zoom_bundle]"
      "ManifestId (Manifest jira_bundle) = ManifestId ?m"
    by (simp_all add: jira_bundle_def)
  from duplicate_id_leaves_filesystem [OF env on wf tmp ex rd mf pl dup] env on wf tmp ex0 pl
  show ?thesis by simp
qed

end
